theory Spec2Isabelle
  imports Complex_Main "HOL-Library.AList"
begin

section \<open>Softmax classifier and fully-connected networks over exact reals\<close>

text \<open>
  The development embeds \<^verbatim>\<open>CNNVR/classifiers/softmax.py\<close> and
  \<^verbatim>\<open>cs231n/classifiers/fc_net.py\<close>. Floating-point numbers are modelled by
  \<^typ>\<open>real\<close>: every statement below is about exact arithmetic. Every place where
  Python or numpy raises is a branch returning \<open>Inl\<close> of an \<open>error\<close>.
\<close>

subsection \<open>Errors and arrays\<close>

datatype error =
    ValueError string
  | IndexError
  | ZeroDivisionError
  | TypeError
  | KeyError string

text \<open>
  A two-dimensional numpy array: its second shape component and its rows. The first
  shape component is the number of rows. numpy arrays are rectangular
  (\<open>wf_ndarray\<close>); the column count is kept apart so that an array with no rows still
  has a shape \<open>(0, C)\<close>.
\<close>

record ndarray =
  ncols :: nat
  rows :: "real list list"

definition shape0 :: "ndarray \<Rightarrow> nat" where
  "shape0 A = length (rows A)"

definition wf_ndarray :: "ndarray \<Rightarrow> bool" where
  "wf_ndarray A = list_all (\<lambda>r. length r = ncols A) (rows A)"

definition dot :: "real list \<Rightarrow> real list \<Rightarrow> real" where
  "dot u v = sum_list (map2 (*) u v)"

definition column :: "ndarray \<Rightarrow> nat \<Rightarrow> real list" where
  "column A j = map (\<lambda>r. r ! j) (rows A)"

text \<open>\<^verbatim>\<open>x.dot(W)\<close> for a vector \<open>x\<close>: numpy raises ValueError when the shapes are not aligned.\<close>

definition vec_dot :: "real list \<Rightarrow> ndarray \<Rightarrow> error + real list" where
  "vec_dot x W =
     (if length x = shape0 W
      then Inr (map (\<lambda>j. dot x (column W j)) [0..<ncols W])
      else Inl (ValueError ''shapes not aligned''))"

text \<open>\<^verbatim>\<open>np.dot(A, B)\<close> for two-dimensional arrays.\<close>

definition mat_dot :: "ndarray \<Rightarrow> ndarray \<Rightarrow> error + ndarray" where
  "mat_dot A B =
     (if ncols A = shape0 B
      then Inr \<lparr>ncols = ncols B,
                rows = map (\<lambda>r. map (\<lambda>j. dot r (column B j)) [0..<ncols B]) (rows A)\<rparr>
      else Inl (ValueError ''shapes not aligned''))"

text \<open>\<^verbatim>\<open>A.T\<close>\<close>

definition transpose_nd :: "ndarray \<Rightarrow> ndarray" where
  "transpose_nd A = \<lparr>ncols = shape0 A, rows = map (column A) [0..<ncols A]\<rparr>"

text \<open>\<^verbatim>\<open>np.max\<close> of the entries: ValueError on a zero-size array.\<close>

definition np_max :: "real list \<Rightarrow> error + real" where
  "np_max xs = (case xs of [] \<Rightarrow> Inl (ValueError ''zero-size array to reduction operation maximum'')
                | x # r \<Rightarrow> Inr (fold max r x))"

text \<open>Indexing an axis of length \<open>n\<close> by an integer: negative indices count from the end.\<close>

definition np_index :: "nat \<Rightarrow> int \<Rightarrow> error + nat" where
  "np_index n i =
     (if 0 \<le> i \<and> i < int n then Inr (nat i)
      else if - int n \<le> i \<and> i < 0 then Inr (nat (int n + i))
      else Inl IndexError)"

fun index_all :: "nat \<Rightarrow> int list \<Rightarrow> error + nat list" where
  "index_all n [] = Inr []"
| "index_all n (k # ks) =
     (case np_index n k of Inl e \<Rightarrow> Inl e
      | Inr j \<Rightarrow> (case index_all n ks of Inl e \<Rightarrow> Inl e | Inr js \<Rightarrow> Inr (j # js)))"

text \<open>
  \<^verbatim>\<open>A[np.arange(num_train), y]\<close> on an array with \<open>C\<close> columns. The label array is the
  \<open>(N,)\<close> array of the docstring; a label array of another length is an IndexError
  (numpy's broadcasting of a one-element index array is not modelled).
\<close>

definition fancy_index :: "nat \<Rightarrow> nat \<Rightarrow> int list \<Rightarrow> error + nat list" where
  "fancy_index C num_train y =
     (if length y = num_train then index_all C y else Inl IndexError)"

definition zeros_like :: "ndarray \<Rightarrow> real list list" where
  "zeros_like W = map (map (\<lambda>_. 0)) (rows W)"

text \<open>\<^verbatim>\<open>np.sum(W * W)\<close>\<close>

definition sum_squares :: "ndarray \<Rightarrow> real" where
  "sum_squares W = sum_list (map (\<lambda>r. sum_list (map (\<lambda>v. v * v) r)) (rows W))"

text \<open>\<^verbatim>\<open>dW /= num_train; dW += reg * W\<close>\<close>

definition average_and_regularize :: "real list list \<Rightarrow> nat \<Rightarrow> real \<Rightarrow> ndarray \<Rightarrow> ndarray" where
  "average_and_regularize dW num_train reg W =
     \<lparr>ncols = ncols W,
      rows = map2 (map2 (\<lambda>g w. g / real num_train + reg * w)) dW (rows W)\<rparr>"

subsection \<open>\<^verbatim>\<open>softmax_loss_naive\<close>\<close>

text \<open>\<^verbatim>\<open>dW[:, j] += v\<close>\<close>

definition add_col :: "real list list \<Rightarrow> nat \<Rightarrow> real list \<Rightarrow> real list list" where
  "add_col dW j v = map2 (\<lambda>r a. r[j := r ! j + a]) dW v"

text \<open>
  The inner loop over the classes (source line 47): the column gets the row of \<open>X\<close> times
  \<open>- (j == y[i])\<close>, plus the probability as a scalar added to every component. The
  comparison \<open>j == y[i]\<close> is on the label as given, not on the wrapped index.
\<close>

fun grad_cols :: "real list \<Rightarrow> int \<Rightarrow> real list \<Rightarrow> nat list \<Rightarrow> real list list \<Rightarrow> real list list" where
  "grad_cols x yi f [] dW = dW"
| "grad_cols x yi f (j # js) dW =
     grad_cols x yi f js
       (add_col dW j
          (map (\<lambda>v. v * (- 1 * (if int j = yi then 1 else 0))
                     + exp (f ! j) / sum_list (map exp f)) x))"

text \<open>The loop over the examples; \<open>i\<close> is the index of the head of the remaining rows.\<close>

fun naive_loop ::
  "ndarray \<Rightarrow> int list \<Rightarrow> nat \<Rightarrow> real list list \<Rightarrow> real \<times> real list list
     \<Rightarrow> error + (real \<times> real list list)" where
  "naive_loop W y i [] acc = Inr acc"
| "naive_loop W y i (x # xs) acc =
     (case vec_dot x W of Inl e \<Rightarrow> Inl e
      | Inr f_scores \<Rightarrow>
     (case np_max f_scores of Inl e \<Rightarrow> Inl e
      | Inr f_max \<Rightarrow>
     (let f = map (\<lambda>v. v - f_max) f_scores in
      if i < length y then
        (case np_index (length f) (y ! i) of Inl e \<Rightarrow> Inl e
         | Inr k \<Rightarrow>
             naive_loop W y (Suc i) xs
               (fst acc + (- (f ! k) + ln (sum_list (map exp f))),
                grad_cols x (y ! i) f [0..<ncols W] (snd acc)))
      else Inl IndexError)))"

text \<open>
  After the loop \<open>loss\<close> is still the Python float \<open>0.0\<close> when there was no example, and
  \<^verbatim>\<open>loss /= num_train\<close> raises ZeroDivisionError.
\<close>

definition softmax_loss_naive :: "ndarray \<Rightarrow> ndarray \<Rightarrow> int list \<Rightarrow> real \<Rightarrow> error + (real \<times> ndarray)" where
  "softmax_loss_naive W X y reg =
     (let num_train = shape0 X in
      case naive_loop W y 0 (rows X) (0, zeros_like W) of Inl e \<Rightarrow> Inl e
      | Inr acc \<Rightarrow>
          if num_train = 0 then Inl ZeroDivisionError
          else Inr (fst acc / real num_train + 0.5 * reg * sum_squares W,
                    average_and_regularize (snd acc) num_train reg W))"

subsection \<open>\<^verbatim>\<open>softmax_loss_vectorized\<close>\<close>

text \<open>
  \<open>np.max(f)\<close> is the maximum of the whole score matrix. With no example the matrix has
  size zero and \<open>np.max\<close> raises, so the later divisions by \<open>num_train\<close> are never by zero.
\<close>

definition softmax_loss_vectorized :: "ndarray \<Rightarrow> ndarray \<Rightarrow> int list \<Rightarrow> real \<Rightarrow> error + (real \<times> ndarray)" where
  "softmax_loss_vectorized W X y reg =
     (let num_classes = ncols W; num_train = shape0 X in
      case mat_dot X W of Inl e \<Rightarrow> Inl e
      | Inr f0 \<Rightarrow>
     (case np_max (concat (rows f0)) of Inl e \<Rightarrow> Inl e
      | Inr f_max \<Rightarrow>
     (let f = map (map (\<lambda>v. v - f_max)) (rows f0);
          scores = map (map exp) f;
          scores_sums = map sum_list scores
      in case fancy_index (ncols f0) num_train y of Inl e \<Rightarrow> Inl e
         | Inr ks \<Rightarrow>
     (let f_correct = map2 (\<lambda>r k. r ! k) f ks;
          loss = sum_list (map2 (\<lambda>c s. - c + ln s) f_correct scores_sums);
          probs = map2 (\<lambda>r s. map (\<lambda>v. v / s) r) scores scores_sums;
          bi_matrix = map2 (\<lambda>r k. r[k := - 1]) (map (map (\<lambda>_. 0)) scores) ks;
          probs_minus = map2 (map2 (+)) probs bi_matrix
      in case mat_dot (transpose_nd X) \<lparr>ncols = ncols f0, rows = probs_minus\<rparr> of Inl e \<Rightarrow> Inl e
         | Inr dW \<Rightarrow>
             Inr (loss / real num_train + 0.5 * reg * sum_squares W,
                  average_and_regularize (rows dW) num_train reg W)))))"

subsection \<open>The loss and the gradient as the specification words them\<close>

text \<open>The score row of one example: \<open>x.dot(W)\<close> when the shapes are aligned.\<close>

definition score_row :: "ndarray \<Rightarrow> real list \<Rightarrow> real list" where
  "score_row W x = map (\<lambda>j. dot x (column W j)) [0..<ncols W]"

definition scores_of :: "ndarray \<Rightarrow> ndarray \<Rightarrow> real list list" where
  "scores_of W X = map (score_row W) (rows X)"

text \<open>Per-row contribution: \<open>- s[k] + log (sum_j exp s[j])\<close>.\<close>

definition row_loss :: "real list \<Rightarrow> nat \<Rightarrow> real" where
  "row_loss s k = - (s ! k) + ln (sum_list (map exp s))"

text \<open>The mean of the per-row contributions over the rows of a score matrix.\<close>

definition mean_loss :: "real list list \<Rightarrow> int list \<Rightarrow> real" where
  "mean_loss S y = (\<Sum>i<length S. row_loss (S ! i) (nat (y ! i))) / real (length S)"

text \<open>The two shifts: each row minus its own maximum, every entry minus the maximum of the matrix.\<close>

definition row_shifted :: "real list list \<Rightarrow> real list list" where
  "row_shifted S = map (\<lambda>s. map (\<lambda>v. v - Max (set s)) s) S"

definition global_shifted :: "real list list \<Rightarrow> real list list" where
  "global_shifted S = map (map (\<lambda>v. v - Max (set (concat S)))) S"

definition reg_term :: "real \<Rightarrow> ndarray \<Rightarrow> real" where
  "reg_term reg W = 0.5 * reg * sum_squares W"

definition labels_in_range :: "nat \<Rightarrow> int list \<Rightarrow> bool" where
  "labels_in_range C y = list_all (\<lambda>k. 0 \<le> k \<and> k < int C) y"

text \<open>The matrix that the vectorized function multiplies by \<open>X.T\<close>: probabilities plus the \<open>-1\<close> entries.\<close>

definition probs_minus :: "real list list \<Rightarrow> nat list \<Rightarrow> real list list" where
  "probs_minus f ks =
     map2 (map2 (+))
       (map2 (\<lambda>r s. map (\<lambda>v. v / s) r) (map (map exp) f) (map sum_list (map (map exp) f)))
       (map2 (\<lambda>r k. r[k := - 1]) (map (map (\<lambda>_. 0)) (map (map exp) f)) ks)"

text \<open>
  The gradient in the words of the specification: \<open>softmax_prob\<close>, \<open>d_scores\<close>, and the
  entry \<open>(d, j)\<close> of \<open>X^T \<cdot> d_scores + reg \<cdot> W\<close>.
\<close>

definition softmax_prob :: "real list \<Rightarrow> nat \<Rightarrow> real" where
  "softmax_prob s j = exp (s ! j) / (\<Sum>k<length s. exp (s ! k))"

definition d_scores :: "real list list \<Rightarrow> int list \<Rightarrow> nat \<Rightarrow> nat \<Rightarrow> real" where
  "d_scores S y i j =
     (softmax_prob (S ! i) j - (if int j = y ! i then 1 else 0)) / real (length S)"

definition spec_dW :: "ndarray \<Rightarrow> ndarray \<Rightarrow> int list \<Rightarrow> real \<Rightarrow> nat \<Rightarrow> nat \<Rightarrow> real" where
  "spec_dW W X y reg d j =
     (\<Sum>i<shape0 X. rows X ! i ! d * d_scores (global_shifted (scores_of W X)) y i j)
     + reg * (rows W ! d ! j)"

section \<open>The network models of \<^verbatim>\<open>fc_net.py\<close>\<close>

subsection \<open>Python values: dictionaries, strings of integers, arrays\<close>

text \<open>A parameter or a gradient: a one-dimensional or a two-dimensional array.\<close>

datatype array = Vec "real list" | Mat ndarray

text \<open>
  A dictionary is an association list with at most one entry per key; assignment replaces
  the entry of a key that is present. The order of the entries stands for the iteration
  order of the dictionary.
\<close>

definition bind_err :: "error + 'a \<Rightarrow> ('a \<Rightarrow> error + 'b) \<Rightarrow> error + 'b" where
  "bind_err r f = (case r of Inl e \<Rightarrow> Inl e | Inr v \<Rightarrow> f v)"

definition dict_get :: "(string \<times> 'v) list \<Rightarrow> string \<Rightarrow> error + 'v" where
  "dict_get d k = (case map_of d k of None \<Rightarrow> Inl (KeyError k) | Some v \<Rightarrow> Inr v)"

definition dict_set :: "(string \<times> 'v) list \<Rightarrow> string \<Rightarrow> 'v \<Rightarrow> (string \<times> 'v) list" where
  "dict_set d k v = AList.update k v d"

text \<open>\<^verbatim>\<open>d.update(other)\<close>\<close>

definition dict_update :: "(string \<times> 'v) list \<Rightarrow> (string \<times> 'v) list \<Rightarrow> (string \<times> 'v) list" where
  "dict_update d other = fold (\<lambda>kv acc. AList.update (fst kv) (snd kv) acc) other d"

definition keys :: "(string \<times> 'v) list \<Rightarrow> string set" where
  "keys d = set (map fst d)"

text \<open>\<^verbatim>\<open>str(n)\<close> for a non-negative integer.\<close>

definition digit_char :: "nat \<Rightarrow> char" where
  "digit_char d = ''0123456789'' ! d"

fun str_nat :: "nat \<Rightarrow> string" where
  "str_nat n = (if n < 10 then [digit_char n] else str_nat (n div 10) @ [digit_char (n mod 10)])"

declare str_nat.simps [simp del]

text \<open>The error of numpy for a negative dimension.\<close>

definition negative_dims :: error where
  "negative_dims = ValueError ''negative dimensions are not allowed''"

text \<open>A size as Python passes it to numpy: an integer or a float.\<close>

datatype py_num = PyInteger int | PyFloat real

text \<open>
  The numpy of a run is a parameter of the model. Its random generator is a state \<open>'g\<close>
  with two samplers, each returning one draw and the next state: \<open>rand1\<close> for the uniform
  distribution on \<open>[0, 1)\<close> (\<^verbatim>\<open>np.random.rand\<close>) and \<open>randn1\<close> for the standard normal
  distribution (\<^verbatim>\<open>np.random.randn\<close>). \<open>alloc_error\<close> gives, for a shape, the error
  numpy raises when it cannot create an array of that shape (a dimension beyond its index
  type, a size beyond its maximum, a failed allocation), or \<open>None\<close> when it creates the
  array. \<open>float_size\<close> gives what it makes of a non-integer size: an error (TypeError
  in the versions that refuse it) or the integer it truncates to (in the versions that
  only warn).
\<close>

record 'g numpy =
  rand1 :: "'g \<Rightarrow> real \<times> 'g"
  randn1 :: "'g \<Rightarrow> real \<times> 'g"
  alloc_error :: "nat list \<Rightarrow> error option"
  float_size :: "real \<Rightarrow> error + int"

definition as_size :: "'g numpy \<Rightarrow> py_num \<Rightarrow> error + int" where
  "as_size R d = (case d of PyInteger n \<Rightarrow> Inr n | PyFloat x \<Rightarrow> float_size R x)"

text \<open>
  The check of a shape of integers: a negative dimension is refused, then the array must
  be one that numpy can create. (For a shape with both a negative and an unrepresentable
  dimension the model reports the negative one.)
\<close>

definition shape_error :: "'g numpy \<Rightarrow> int list \<Rightarrow> error option" where
  "shape_error R shape =
     (if list_all (\<lambda>n. 0 \<le> n) shape then alloc_error R (map nat shape)
      else Some negative_dims)"

text \<open>\<^verbatim>\<open>np.zeros(d)\<close> and \<^verbatim>\<open>np.ones(d)\<close> are \<open>np_full R 0 d\<close> and \<open>np_full R 1 d\<close>.\<close>

definition np_full :: "'g numpy \<Rightarrow> real \<Rightarrow> py_num \<Rightarrow> error + real list" where
  "np_full R v d =
     (case as_size R d of Inl e \<Rightarrow> Inl e
      | Inr n \<Rightarrow>
          (case shape_error R [n] of Some e \<Rightarrow> Inl e
           | None \<Rightarrow> Inr (replicate (nat n) v)))"

definition np_zeros :: "'g numpy \<Rightarrow> py_num \<Rightarrow> error + real list" where
  "np_zeros R d = np_full R 0 d"

fun draw_list :: "('g \<Rightarrow> real \<times> 'g) \<Rightarrow> nat \<Rightarrow> 'g \<Rightarrow> real list \<times> 'g" where
  "draw_list f 0 g = ([], g)"
| "draw_list f (Suc n) g =
     (case f g of (v, g') \<Rightarrow> (case draw_list f n g' of (vs, g'') \<Rightarrow> (v # vs, g'')))"

fun draw_rows :: "('g \<Rightarrow> real \<times> 'g) \<Rightarrow> nat \<Rightarrow> nat \<Rightarrow> 'g \<Rightarrow> real list list \<times> 'g" where
  "draw_rows f 0 m g = ([], g)"
| "draw_rows f (Suc n) m g =
     (case draw_list f m g of (r, g') \<Rightarrow> (case draw_rows f n m g' of (rs, g'') \<Rightarrow> (r # rs, g'')))"

text \<open>A \<open>d0 \<times> d1\<close> array of draws of one sampler.\<close>

definition np_random ::
  "'g numpy \<Rightarrow> ('g \<Rightarrow> real \<times> 'g) \<Rightarrow> py_num \<Rightarrow> py_num \<Rightarrow> 'g \<Rightarrow> error + (ndarray \<times> 'g)" where
  "np_random R f d0 d1 g =
     (case as_size R d0 of Inl e \<Rightarrow> Inl e
      | Inr n0 \<Rightarrow>
     (case as_size R d1 of Inl e \<Rightarrow> Inl e
      | Inr n1 \<Rightarrow>
     (case shape_error R [n0, n1] of Some e \<Rightarrow> Inl e
      | None \<Rightarrow>
          (case draw_rows f (nat n0) (nat n1) g of
             (rs, g') \<Rightarrow> Inr (\<lparr>ncols = nat n1, rows = rs\<rparr>, g')))))"

definition scale :: "real \<Rightarrow> ndarray \<Rightarrow> ndarray" where
  "scale c A = \<lparr>ncols = ncols A, rows = map (map (\<lambda>v. c * v)) (rows A)\<rparr>"

text \<open>\<^verbatim>\<open>np.sum(w * w)\<close> for a parameter.\<close>

fun array_sum_squares :: "array \<Rightarrow> real" where
  "array_sum_squares (Vec v) = sum_list (map (\<lambda>a. a * a) v)"
| "array_sum_squares (Mat A) = sum_squares A"

text \<open>
  \<^verbatim>\<open>dW + reg * W\<close>. The layer primitives return a gradient of the shape of its
  parameter; the sum of two arrays of different shapes is a ValueError (numpy's
  broadcasting between different shapes is not modelled).
\<close>

fun add_scaled :: "array \<Rightarrow> real \<Rightarrow> array \<Rightarrow> error + array" where
  "add_scaled (Vec g) c (Vec w) =
     (if length g = length w then Inr (Vec (map2 (\<lambda>a b. a + c * b) g w))
      else Inl (ValueError ''operands could not be broadcast together''))"
| "add_scaled (Mat G) c (Mat W) =
     (if ncols G = ncols W \<and> shape0 G = shape0 W
      then Inr (Mat \<lparr>ncols = ncols G, rows = map2 (map2 (\<lambda>a b. a + c * b)) (rows G) (rows W)\<rparr>)
      else Inl (ValueError ''operands could not be broadcast together''))"
| "add_scaled _ c _ = Inl (ValueError ''operands could not be broadcast together'')"

subsection \<open>The layer primitives\<close>

text \<open>
  \<^verbatim>\<open>cs231n.layers\<close> and \<^verbatim>\<open>cs231n.layer_utils\<close> are imported by the source and are
  not part of it: the forward and backward operations are parameters of the model, each
  free to raise. \<open>'c\<close> is the type of the caches.
\<close>

record 'c layers =
  affine_forward :: "ndarray \<Rightarrow> array \<Rightarrow> array \<Rightarrow> error + (ndarray \<times> 'c)"
  affine_relu_forward :: "ndarray \<Rightarrow> array \<Rightarrow> array \<Rightarrow> error + (ndarray \<times> 'c)"
  affine_backward :: "ndarray \<Rightarrow> 'c \<Rightarrow> error + (ndarray \<times> array \<times> array)"
  affine_relu_backward :: "ndarray \<Rightarrow> 'c \<Rightarrow> error + (ndarray \<times> array \<times> array)"
  softmax_loss :: "ndarray \<Rightarrow> int list \<Rightarrow> error + (real \<times> ndarray)"

text \<open>What \<open>loss\<close> returns: the scores without labels, the loss and the gradients with labels.\<close>

datatype loss_result = Scores ndarray | LossGrads real "(string \<times> array) list"

subsection \<open>\<^verbatim>\<open>TwoLayerNet\<close>\<close>

record two_layer_net =
  tl_params :: "(string \<times> array) list"
  tl_reg :: real
  tl_D :: int
  tl_M :: int
  tl_C :: int

text \<open>
  \<^verbatim>\<open>TwoLayerNet.__init__\<close>: the weights are \<open>weight_scale * np.random.randn(...)\<close>. The
  three dimensions are integers.
\<close>

definition TwoLayerNet_init ::
  "'g numpy \<Rightarrow> int \<Rightarrow> int \<Rightarrow> int \<Rightarrow> real \<Rightarrow> real \<Rightarrow> 'g \<Rightarrow> error + (two_layer_net \<times> 'g)" where
  "TwoLayerNet_init R input_dim hidden_dim num_classes weight_scale reg_arg g =
     bind_err (np_random R (randn1 R) (PyInteger input_dim) (PyInteger hidden_dim) g) (\<lambda>(A1, g1).
     bind_err (np_zeros R (PyInteger hidden_dim)) (\<lambda>b1.
     bind_err (np_random R (randn1 R) (PyInteger hidden_dim) (PyInteger num_classes) g1) (\<lambda>(A2, g2).
     bind_err (np_zeros R (PyInteger num_classes)) (\<lambda>b2.
     Inr (\<lparr>tl_params = dict_update []
                [(''W1'', Mat (scale weight_scale A1)), (''b1'', Vec b1),
                 (''W2'', Mat (scale weight_scale A2)), (''b2'', Vec b2)],
             tl_reg = reg_arg, tl_D = input_dim, tl_M = hidden_dim, tl_C = num_classes\<rparr>,
          g2)))))"

text \<open>
  \<^verbatim>\<open>X.reshape(X.shape[0], d)\<close> for a two-dimensional \<open>X\<close> (an input of shape
  \<open>(N, d_1, ..., d_k)\<close> is given by its rows of \<open>d_1 * ... * d_k\<close> entries): the sizes must
  agree; \<open>-1\<close> stands for the dimension numpy infers.
\<close>

definition reshape_rows :: "ndarray \<Rightarrow> int \<Rightarrow> error + ndarray" where
  "reshape_rows X d =
     (if 0 \<le> d then
        (if int (shape0 X * ncols X) = int (shape0 X) * d
         then Inr \<lparr>ncols = nat d, rows = rows X\<rparr>
         else Inl (ValueError ''cannot reshape array''))
      else if d = - 1 \<and> 0 < shape0 X then Inr X
      else Inl (ValueError ''cannot reshape array''))"

text \<open>\<^verbatim>\<open>TwoLayerNet.loss\<close>; \<open>y\<close> is \<open>None\<close> in inference mode.\<close>

definition TwoLayerNet_loss ::
  "'c layers \<Rightarrow> two_layer_net \<Rightarrow> ndarray \<Rightarrow> int list option \<Rightarrow> error + loss_result" where
  "TwoLayerNet_loss Ls m X y =
     bind_err (dict_get (tl_params m) ''W1'') (\<lambda>W1.
     bind_err (dict_get (tl_params m) ''b1'') (\<lambda>b1.
     bind_err (dict_get (tl_params m) ''W2'') (\<lambda>W2.
     bind_err (dict_get (tl_params m) ''b2'') (\<lambda>b2.
     bind_err (reshape_rows X (tl_D m)) (\<lambda>X'.
     bind_err (affine_relu_forward Ls X' W1 b1) (\<lambda>(hidden, cache_hidden).
     bind_err (affine_forward Ls hidden W2 b2) (\<lambda>(scores, cache_scores).
     (case y of None \<Rightarrow> Inr (Scores scores)
      | Some labels \<Rightarrow>
     bind_err (softmax_loss Ls scores labels) (\<lambda>(data_loss, dscores).
     (let reg_loss = 0.5 * tl_reg m * (array_sum_squares W1 + array_sum_squares W2);
          total = data_loss + reg_loss in
     bind_err (affine_backward Ls dscores cache_scores) (\<lambda>(dhidden, dW2, db2).
     bind_err (add_scaled dW2 (tl_reg m) W2) (\<lambda>dW2'.
     bind_err (affine_relu_backward Ls dhidden cache_hidden) (\<lambda>(dx, dW1, db1).
     bind_err (add_scaled dW1 (tl_reg m) W1) (\<lambda>dW1'.
     Inr (LossGrads total
            (dict_update [] [(''W1'', dW1'), (''b1'', db1), (''W2'', dW2'), (''b2'', db2)]))))))))))))))))"

subsection \<open>\<^verbatim>\<open>FullyConnectedNet\<close>\<close>

text \<open>
  The \<open>hidden_dims\<close> argument as Python passes it: a list or a tuple of numbers, an
  integer, or \<open>None\<close>.
\<close>

datatype py_arg = PyList "py_num list" | PyTuple "py_num list" | PyInt int | PyNone

text \<open>The values held by \<open>dropout_param\<close> and by each \<open>bn_param\<close>.\<close>

datatype py_value = PyStr string | PyNum real | PySeed int | PyArr "real list"

record fc_net =
  fc_use_batchnorm :: bool
  fc_use_dropout :: bool
  fc_reg :: real
  fc_num_layers :: nat
  fc_params :: "(string \<times> array) list"
  fc_L :: nat
  fc_N :: int
  fc_C :: int
  fc_dropout_param :: "(string \<times> py_value) list"
  fc_bn_params :: "(string \<times> (string \<times> py_value) list) list"

text \<open>\<open>xs[i]\<close> for a non-negative index.\<close>

definition list_get :: "'a list \<Rightarrow> nat \<Rightarrow> error + 'a" where
  "list_get xs i = (if i < length xs then Inr (xs ! i) else Inl IndexError)"

text \<open>
  The loop of lines 209 to 211: the weights are \<open>weight_scale * np.random.rand(...)\<close>,
  the uniform sampler.
\<close>

fun init_layers ::
  "'g numpy \<Rightarrow> real \<Rightarrow> py_num list \<Rightarrow> nat list \<Rightarrow> (string \<times> array) list \<Rightarrow> (string \<times> array) list \<Rightarrow> 'g
     \<Rightarrow> error + (((string \<times> array) list \<times> (string \<times> array) list) \<times> 'g)" where
  "init_layers R weight_scale dims [] Ws bs g = Inr ((Ws, bs), g)"
| "init_layers R weight_scale dims (i # js) Ws bs g =
     (case list_get dims i of Inl e \<Rightarrow> Inl e | Inr d0 \<Rightarrow>
     (case list_get dims (i + 1) of Inl e \<Rightarrow> Inl e | Inr d1 \<Rightarrow>
     (case np_random R (rand1 R) d0 d1 g of Inl e \<Rightarrow> Inl e | Inr Ag \<Rightarrow>
     (case np_zeros R d1 of Inl e \<Rightarrow> Inl e | Inr z \<Rightarrow>
     init_layers R weight_scale dims js
       (dict_set Ws (''W'' @ str_nat (i + 1)) (Mat (scale weight_scale (fst Ag))))
       (dict_set bs (''b'' @ str_nat (i + 1)) (Vec z)) (snd Ag)))))"

text \<open>The dictionary comprehension of lines 235 to 239; the source reads \<open>dims[i+i]\<close>.\<close>

fun init_bn_params ::
  "'g numpy \<Rightarrow> py_num list \<Rightarrow> nat list \<Rightarrow> (string \<times> (string \<times> py_value) list) list
     \<Rightarrow> error + (string \<times> (string \<times> py_value) list) list" where
  "init_bn_params R dims [] acc = Inr acc"
| "init_bn_params R dims (i # js) acc =
     (case list_get dims (i + 1) of Inl e \<Rightarrow> Inl e | Inr d1 \<Rightarrow>
     (case np_zeros R d1 of Inl e \<Rightarrow> Inl e | Inr running_mean \<Rightarrow>
     (case list_get dims (i + i) of Inl e \<Rightarrow> Inl e | Inr d2 \<Rightarrow>
     (case np_zeros R d2 of Inl e \<Rightarrow> Inl e | Inr running_var \<Rightarrow>
     init_bn_params R dims js
       (dict_set acc (''bn_param'' @ str_nat (i + 1))
          [(''mode'', PyStr ''train''), (''running_mean'', PyArr running_mean),
           (''running_var'', PyArr running_var)])))))"

text \<open>The comprehensions of lines 240 and 241: \<open>{name + str(i+1): fill(dims[i+1]) ...}\<close>.\<close>

fun init_vectors ::
  "'g numpy \<Rightarrow> string \<Rightarrow> real \<Rightarrow> py_num list \<Rightarrow> nat list \<Rightarrow> (string \<times> array) list
     \<Rightarrow> error + (string \<times> array) list" where
  "init_vectors R name v dims [] acc = Inr acc"
| "init_vectors R name v dims (i # js) acc =
     (case list_get dims (i + 1) of Inl e \<Rightarrow> Inl e | Inr d1 \<Rightarrow>
     (case np_full R v d1 of Inl e \<Rightarrow> Inl e | Inr a \<Rightarrow>
     init_vectors R name v dims js (dict_set acc (name @ str_nat (i + 1)) (Vec a))))"

text \<open>
  \<^verbatim>\<open>FullyConnectedNet.__init__\<close>. \<open>len(hidden_dims)\<close> on line 182 raises TypeError for a
  value without a length, before the check of line 198. \<open>input_dim\<close> and \<open>num_classes\<close>
  are integers. The cast to \<open>dtype\<close> is the identity on reals.
\<close>

definition FullyConnectedNet_init ::
  "'g numpy \<Rightarrow> py_arg \<Rightarrow> int \<Rightarrow> int \<Rightarrow> real \<Rightarrow> bool \<Rightarrow> real \<Rightarrow> real \<Rightarrow> int option \<Rightarrow> 'g
     \<Rightarrow> error + (fc_net \<times> 'g)" where
  "FullyConnectedNet_init R hidden_dims input_dim num_classes dropout use_batchnorm reg_arg
       weight_scale seed g =
     (case hidden_dims of
        PyInt _ \<Rightarrow> Inl TypeError
      | PyNone \<Rightarrow> Inl TypeError
      | PyTuple _ \<Rightarrow> Inl (ValueError ''hidden_dim has to be a list'')
      | PyList hs \<Rightarrow>
          (let dims = [PyInteger input_dim] @ hs @ [PyInteger num_classes] in
           bind_err (init_layers R weight_scale dims [0..<length dims - 1] [] [] g) (\<lambda>(Wb, g').
           (let params = dict_update (dict_update [] (fst Wb)) (snd Wb);
                dropout_param =
                  (if 0 < dropout
                   then (case seed of
                           None \<Rightarrow> [(''mode'', PyStr ''train''), (''p'', PyNum dropout)]
                         | Some sd \<Rightarrow> dict_set [(''mode'', PyStr ''train''), (''p'', PyNum dropout)]
                                        ''seed'' (PySeed sd))
                   else [])
            in bind_err
                 (if use_batchnorm then
                    bind_err (init_bn_params R dims [0..<length dims - 2] []) (\<lambda>bn.
                    bind_err (init_vectors R ''gamma'' 1 dims [0..<length dims - 2] []) (\<lambda>gammas.
                    bind_err (init_vectors R ''beta'' 0 dims [0..<length dims - 2] []) (\<lambda>betas.
                    Inr (bn, dict_update (dict_update params betas) gammas))))
                  else Inr ([], params))
                 (\<lambda>(bn, params').
                    Inr (\<lparr>fc_use_batchnorm = use_batchnorm, fc_use_dropout = (0 < dropout),
                           fc_reg = reg_arg, fc_num_layers = 1 + length hs,
                           fc_params = params', fc_L = length hs + 1,
                           fc_N = input_dim, fc_C = num_classes,
                           fc_dropout_param = dropout_param, fc_bn_params = bn\<rparr>, g'))))))"

text \<open>The values of the dictionary \<open>hiddens\<close>: activations, caches and gradients.\<close>

datatype 'c hval = HAct ndarray | HCache 'c | HGrad array

definition get_act :: "(string \<times> 'c hval) list \<Rightarrow> string \<Rightarrow> error + ndarray" where
  "get_act hiddens k =
     bind_err (dict_get hiddens k) (\<lambda>v. case v of HAct a \<Rightarrow> Inr a | _ \<Rightarrow> Inl TypeError)"

definition get_cache :: "(string \<times> 'c hval) list \<Rightarrow> string \<Rightarrow> error + 'c" where
  "get_cache hiddens k =
     bind_err (dict_get hiddens k) (\<lambda>v. case v of HCache c \<Rightarrow> Inr c | _ \<Rightarrow> Inl TypeError)"

text \<open>
  The forward loop of lines 284 to 297: \<open>affine_forward\<close> on the last layer,
  \<open>affine_relu_forward\<close> on the others. Neither \<open>use_batchnorm\<close> nor \<open>use_dropout\<close> is read.
\<close>

fun forward_loop ::
  "'c layers \<Rightarrow> (string \<times> array) list \<Rightarrow> nat \<Rightarrow> nat list \<Rightarrow> (string \<times> 'c hval) list
     \<Rightarrow> error + (string \<times> 'c hval) list" where
  "forward_loop Ls params n [] hiddens = Inr hiddens"
| "forward_loop Ls params n (i # js) hiddens =
     (let idx = i + 1 in
      case dict_get params (''W'' @ str_nat idx) of Inl e \<Rightarrow> Inl e | Inr w \<Rightarrow>
     (case dict_get params (''b'' @ str_nat idx) of Inl e \<Rightarrow> Inl e | Inr b \<Rightarrow>
     (case get_act hiddens (''hidden'' @ str_nat (idx - 1)) of Inl e \<Rightarrow> Inl e | Inr hidden \<Rightarrow>
     (case (if idx = n then affine_forward Ls hidden w b
            else affine_relu_forward Ls hidden w b) of Inl e \<Rightarrow> Inl e
      | Inr out \<Rightarrow>
          forward_loop Ls params n js
            (dict_set (dict_set hiddens (''hidden'' @ str_nat idx) (HAct (fst out)))
               (''cache_hidden'' @ str_nat idx) (HCache (snd out)))))))"

text \<open>The backward loop of lines 334 to 347, over the layers in reverse.\<close>

fun backward_loop ::
  "'c layers \<Rightarrow> nat \<Rightarrow> nat list \<Rightarrow> (string \<times> 'c hval) list \<Rightarrow> error + (string \<times> 'c hval) list" where
  "backward_loop Ls n [] hiddens = Inr hiddens"
| "backward_loop Ls n (i # js) hiddens =
     (let idx = i + 1 in
      case get_act hiddens (''dhidden'' @ str_nat idx) of Inl e \<Rightarrow> Inl e | Inr dhidden \<Rightarrow>
     (case get_cache hiddens (''cache_hidden'' @ str_nat idx) of Inl e \<Rightarrow> Inl e
      | Inr cache_hidden \<Rightarrow>
     (case (if idx = n then affine_backward Ls dhidden cache_hidden
            else affine_relu_backward Ls dhidden cache_hidden) of Inl e \<Rightarrow> Inl e
      | Inr out \<Rightarrow>
          backward_loop Ls n js
            (dict_set (dict_set (dict_set hiddens (''dhidden'' @ str_nat (idx - 1)) (HAct (fst out)))
               (''dW'' @ str_nat idx) (HGrad (fst (snd out))))
               (''db'' @ str_nat idx) (HGrad (snd (snd out)))))))"

text \<open>Lines 326 and 327: the parameters whose key starts with \<open>W\<close>; \<open>f[0]\<close> raises on an empty key.\<close>

fun reg_loss_loop :: "real \<Rightarrow> (string \<times> array) list \<Rightarrow> string list \<Rightarrow> real \<Rightarrow> error + real" where
  "reg_loss_loop r params [] acc = Inr acc"
| "reg_loss_loop r params (f # fs) acc =
     (case f of
        [] \<Rightarrow> Inl IndexError
      | c # _ \<Rightarrow>
          if c = CHR ''W''
          then (case dict_get params f of Inl e \<Rightarrow> Inl e
                | Inr w \<Rightarrow> reg_loss_loop r params fs (acc + 0.5 * r * array_sum_squares w))
          else reg_loss_loop r params fs acc)"

text \<open>Line 349: \<open>{key[1:]: val + reg * params[key[1:]] ... if key[:2] == 'dW'}\<close>.\<close>

fun collect_dW ::
  "real \<Rightarrow> (string \<times> array) list \<Rightarrow> (string \<times> 'c hval) list \<Rightarrow> (string \<times> array) list
     \<Rightarrow> error + (string \<times> array) list" where
  "collect_dW r params [] acc = Inr acc"
| "collect_dW r params (kv # rest) acc =
     (if take 2 (fst kv) = ''dW''
      then (case dict_get params (tl (fst kv)) of Inl e \<Rightarrow> Inl e
            | Inr w \<Rightarrow>
               (case snd kv of
                  HGrad a \<Rightarrow>
                    (case add_scaled a r w of Inl e \<Rightarrow> Inl e
                     | Inr v \<Rightarrow> collect_dW r params rest (dict_set acc (tl (fst kv)) v))
                | _ \<Rightarrow> Inl TypeError))
      else collect_dW r params rest acc)"

text \<open>Line 351: \<open>{key[1:]: val ... if key[:2] == 'db'}\<close>.\<close>

fun collect_db ::
  "(string \<times> 'c hval) list \<Rightarrow> (string \<times> array) list \<Rightarrow> error + (string \<times> array) list" where
  "collect_db [] acc = Inr acc"
| "collect_db (kv # rest) acc =
     (if take 2 (fst kv) = ''db''
      then (case snd kv of
              HGrad a \<Rightarrow> collect_db rest (dict_set acc (tl (fst kv)) a)
            | _ \<Rightarrow> Inl TypeError)
      else collect_db rest acc)"

text \<open>
  \<^verbatim>\<open>FullyConnectedNet.loss\<close>. The call writes \<open>mode\<close> into \<open>dropout_param\<close> and, with
  batch normalization, the entry \<open>mode: mode\<close> into every \<open>bn_param\<close> (line 265 indexes by
  \<open>mode\<close>); the model after the call is returned with the result. \<open>mode\<close> is \<open>'test'\<close>
  exactly when \<open>y\<close> is \<open>None\<close>.
\<close>

definition FullyConnectedNet_loss ::
  "'c layers \<Rightarrow> fc_net \<Rightarrow> ndarray \<Rightarrow> int list option \<Rightarrow> error + (loss_result \<times> fc_net)" where
  "FullyConnectedNet_loss Ls m X y =
     (let mode = (case y of None \<Rightarrow> ''test'' | Some _ \<Rightarrow> ''train'');
          m1 = m\<lparr>fc_dropout_param := dict_set (fc_dropout_param m) ''mode'' (PyStr mode)\<rparr>;
          m2 = (if fc_use_batchnorm m1
                then m1\<lparr>fc_bn_params :=
                        map (\<lambda>kv. (fst kv, dict_set (snd kv) mode (PyStr mode))) (fc_bn_params m1)\<rparr>
                else m1)
      in bind_err (forward_loop Ls (fc_params m2) (fc_L m2) [0..<fc_L m2]
                     (dict_set [] ''hidden0'' (HAct X))) (\<lambda>hiddens.
         bind_err (get_act hiddens (''hidden'' @ str_nat (fc_L m2))) (\<lambda>scores.
         (case y of None \<Rightarrow> Inr (Scores scores, m2)
          | Some labels \<Rightarrow>
         bind_err (softmax_loss Ls scores labels) (\<lambda>(data_loss, dscores).
         bind_err (reg_loss_loop (fc_reg m2) (fc_params m2) (map fst (fc_params m2)) 0) (\<lambda>reg_loss.
         bind_err (backward_loop Ls (fc_L m2) (rev [0..<fc_L m2])
                     (dict_set hiddens (''dhidden'' @ str_nat (fc_L m2)) (HAct dscores))) (\<lambda>hiddens'.
         bind_err (collect_dW (fc_reg m2) (fc_params m2) hiddens' []) (\<lambda>list_dW.
         bind_err (collect_db hiddens' []) (\<lambda>list_db.
         Inr (LossGrads (data_loss + reg_loss) (dict_update (dict_update [] list_dW) list_db),
              m2))))))))))"

subsection \<open>Reference layer primitives and a fixed generator\<close>

text \<open>
  Modelled from the spec: the layer primitives of \<^verbatim>\<open>cs231n.layers\<close> and
  \<^verbatim>\<open>cs231n.layer_utils\<close>, which the source imports and does not contain. The affine
  layer is \<open>y = xW + b\<close>, the activation is ReLU, a backward operation takes the upstream
  gradient and the cache of its forward operation and returns the gradients of the input
  and of the parameters, and the softmax loss engine is the one of section 4.1 (per-row
  maximum shift, mean of the per-row contributions, \<open>d_scores\<close>). They instantiate the
  \<open>layers\<close> parameter where a statement is evaluated on concrete data.
\<close>

datatype ref_cache = AffineCache ndarray array array | ReluCache ref_cache ndarray

definition ref_affine_forward :: "ndarray \<Rightarrow> array \<Rightarrow> array \<Rightarrow> error + (ndarray \<times> ref_cache)" where
  "ref_affine_forward x w b =
     (case w of
        Mat Wm \<Rightarrow>
          (case b of
             Vec bv \<Rightarrow>
               bind_err (mat_dot x Wm) (\<lambda>out.
                 if length bv = ncols Wm
                 then Inr (\<lparr>ncols = ncols out, rows = map (\<lambda>r. map2 (+) r bv) (rows out)\<rparr>,
                           AffineCache x w b)
                 else Inl (ValueError ''operands could not be broadcast together''))
           | Mat _ \<Rightarrow> Inl (ValueError ''operands could not be broadcast together''))
      | Vec _ \<Rightarrow> Inl (ValueError ''shapes not aligned''))"

definition relu :: "ndarray \<Rightarrow> ndarray" where
  "relu a = \<lparr>ncols = ncols a, rows = map (map (max 0)) (rows a)\<rparr>"

definition ref_affine_relu_forward :: "ndarray \<Rightarrow> array \<Rightarrow> array \<Rightarrow> error + (ndarray \<times> ref_cache)" where
  "ref_affine_relu_forward x w b =
     bind_err (ref_affine_forward x w b) (\<lambda>ac. Inr (relu (fst ac), ReluCache (snd ac) (fst ac)))"

fun ref_affine_backward :: "ndarray \<Rightarrow> ref_cache \<Rightarrow> error + (ndarray \<times> array \<times> array)" where
  "ref_affine_backward dout (AffineCache x (Mat Wm) b) =
     bind_err (mat_dot dout (transpose_nd Wm)) (\<lambda>dx.
     bind_err (mat_dot (transpose_nd x) dout) (\<lambda>dw.
     Inr (dx, Mat dw, Vec (map (\<lambda>j. sum_list (column dout j)) [0..<ncols dout]))))"
| "ref_affine_backward dout _ = Inl TypeError"

fun ref_affine_relu_backward :: "ndarray \<Rightarrow> ref_cache \<Rightarrow> error + (ndarray \<times> array \<times> array)" where
  "ref_affine_relu_backward dout (ReluCache fc_cache a) =
     ref_affine_backward
       \<lparr>ncols = ncols dout,
        rows = map2 (map2 (\<lambda>d v. if 0 < v then d else 0)) (rows dout) (rows a)\<rparr> fc_cache"
| "ref_affine_relu_backward dout _ = Inl TypeError"

definition ref_softmax_loss :: "ndarray \<Rightarrow> int list \<Rightarrow> error + (real \<times> ndarray)" where
  "ref_softmax_loss S y =
     (if shape0 S = 0 then Inl ZeroDivisionError
      else bind_err (fancy_index (ncols S) (shape0 S) y) (\<lambda>ks.
             Inr (mean_loss (row_shifted (rows S)) (map int ks),
                  \<lparr>ncols = ncols S,
                   rows = map (\<lambda>i. map (\<lambda>j. d_scores (row_shifted (rows S)) (map int ks) i j)
                                     [0..<ncols S]) [0..<shape0 S]\<rparr>)))"

definition ref_layers :: "ref_cache layers" where
  "ref_layers =
     \<lparr>affine_forward = ref_affine_forward, affine_relu_forward = ref_affine_relu_forward,
      affine_backward = ref_affine_backward, affine_relu_backward = ref_affine_relu_backward,
      softmax_loss = ref_softmax_loss\<rparr>"

text \<open>
  A numpy for concrete runs: its state counts the draws, the uniform sampler returns
  \<open>1/2\<close> and the normal sampler \<open>-1\<close>; it creates every array, and refuses a
  non-integer size with TypeError.
\<close>

definition fixed_rng :: "nat numpy" where
  "fixed_rng = \<lparr>rand1 = (\<lambda>g. (1 / 2, Suc g)), randn1 = (\<lambda>g. (- 1, Suc g)),
                 alloc_error = (\<lambda>shape. None), float_size = (\<lambda>x. Inl TypeError)\<rparr>"

subsection \<open>The construction error in the words of the specification\<close>

text \<open>
  A proper sequence of positive integers: a list or a tuple whose entries are all positive
  integers.
\<close>

fun positive_integer :: "py_num \<Rightarrow> bool" where
  "positive_integer (PyInteger n) = (0 < n)"
| "positive_integer (PyFloat x) = False"

fun proper_hidden_dims :: "py_arg \<Rightarrow> bool" where
  "proper_hidden_dims (PyList hs) = list_all positive_integer hs"
| "proper_hidden_dims (PyTuple hs) = list_all positive_integer hs"
| "proper_hidden_dims (PyInt _) = False"
| "proper_hidden_dims PyNone = False"

text \<open>
  A size that numpy refuses by itself: a negative integer, or a non-integer that the numpy
  in use does not convert (or converts to a negative integer).
\<close>

definition refused_size :: "'g numpy \<Rightarrow> py_num \<Rightarrow> bool" where
  "refused_size R d = (case as_size R d of Inl e \<Rightarrow> True | Inr n \<Rightarrow> n < 0)"

text \<open>
  The shapes of the arrays that the constructor requests for the integer dimensions
  \<open>dims\<close>: per layer the weight matrix and the bias (the shape of the bias is also that of
  \<open>running_mean\<close>, \<open>gamma\<close> and \<open>beta\<close>), and with batch normalization the \<open>running_var\<close>
  of each hidden layer, of the size \<open>dims[i+i]\<close>.
\<close>

definition requested_shapes :: "bool \<Rightarrow> int list \<Rightarrow> nat list list" where
  "requested_shapes bn dims =
     concat (map (\<lambda>i. [[nat (dims ! i), nat (dims ! (i + 1))], [nat (dims ! (i + 1))]])
               [0..<length dims - 1])
     @ (if bn then map (\<lambda>i. [nat (dims ! (i + i))]) [0..<length dims - 2] else [])"

text \<open>
  An entry of a parameter map whose weight matrix has all its entries between two bounds;
  an entry whose one-dimensional array is zero when its key starts with \<open>b\<close> (the biases
  \<open>b_l\<close>, and the shifts \<open>beta_l\<close>).
\<close>

definition weight_entry_within :: "real \<Rightarrow> real \<Rightarrow> string \<times> array \<Rightarrow> bool" where
  "weight_entry_within lo hi kv =
     (case snd kv of
        Mat A \<Rightarrow> list_all (list_all (\<lambda>v. lo \<le> v \<and> v \<le> hi)) (rows A)
      | Vec _ \<Rightarrow> True)"

definition bias_entry_zero :: "string \<times> array \<Rightarrow> bool" where
  "bias_entry_zero kv =
     (case snd kv of
        Vec v \<Rightarrow> (if take 1 (fst kv) = ''b'' then list_all (\<lambda>a. a = 0) v else True)
      | Mat _ \<Rightarrow> True)"

definition entry_ok :: "real \<Rightarrow> string \<times> array \<Rightarrow> bool" where
  "entry_ok ws kv = (weight_entry_within 0 ws kv \<and> bias_entry_zero kv)"

definition weights_within :: "real \<Rightarrow> real \<Rightarrow> (string \<times> array) list \<Rightarrow> bool" where
  "weights_within lo hi params = list_all (weight_entry_within lo hi) params"

definition biases_zero :: "(string \<times> array) list \<Rightarrow> bool" where
  "biases_zero params = list_all bias_entry_zero params"

section \<open>Properties of the softmax loss\<close>

subsection \<open>Auxiliary facts\<close>

lemma np_max_Max:
  assumes "s \<noteq> []"
  shows "np_max s = Inr (Max (set s))"
proof (cases s)
  case Nil with assms show ?thesis by simp
next
  case (Cons a r)
  show ?thesis using Max.set_eq_fold[of a r] by (simp add: np_max_def Cons)
qed

lemma sum_exp_nonneg: "0 \<le> sum_list (map exp (s::real list))"
  by (induction s) (simp_all add: add_nonneg_nonneg)

lemma sum_exp_pos: "s \<noteq> [] \<Longrightarrow> 0 < sum_list (map exp (s::real list))"
  using sum_exp_nonneg by (cases s) (simp_all add: add_pos_nonneg)

lemma sum_exp_shift:
  "sum_list (map exp (map (\<lambda>v. v - m) s)) = exp (- m) * sum_list (map exp (s::real list))"
  by (induction s) (simp_all add: exp_diff exp_minus field_simps)

lemma row_loss_shift:
  assumes "k < length s"
  shows "row_loss (map (\<lambda>v. v - m) s) k = row_loss s k"
proof -
  from assms have ne: "s \<noteq> []" by auto
  have "ln (exp (- m) * sum_list (map exp s)) = - m + ln (sum_list (map exp s))"
    using sum_exp_pos[OF ne] by (simp add: ln_mult)
  then show ?thesis using assms by (simp add: row_loss_def sum_exp_shift del: map_map)
qed

lemma vec_dot_score_row: "length x = shape0 W \<Longrightarrow> vec_dot x W = Inr (score_row W x)"
  by (simp add: vec_dot_def score_row_def)

lemma length_score_row [simp]: "length (score_row W x) = ncols W"
  by (simp add: score_row_def)

lemma np_index_nat: "0 \<le> k \<Longrightarrow> k < int n \<Longrightarrow> np_index n k = Inr (nat k)"
  by (simp add: np_index_def)

lemma naive_loop_loss:
  assumes "list_all (\<lambda>x. length x = shape0 W) xs"
    and "0 < ncols W"
    and "i + length xs \<le> length y"
    and "labels_in_range (ncols W) y"
  shows "\<exists>g. naive_loop W y i xs acc =
           Inr (fst acc + (\<Sum>t<length xs. row_loss (row_shifted (map (score_row W) xs) ! t) (nat (y ! (i + t)))), g)"
  using assms
proof (induction xs arbitrary: i acc)
  case Nil
  then show ?case by (cases acc) simp
next
  case (Cons x xs)
  let ?s = "score_row W x"
  let ?f = "map (\<lambda>v. v - Max (set ?s)) ?s"
  have ne: "?s \<noteq> []" using Cons.prems(2) by (simp add: score_row_def)
  have iy: "i < length y" using Cons.prems(3) by simp
  then have yi: "0 \<le> y ! i" "y ! i < int (ncols W)"
    using Cons.prems(4) by (simp_all add: list_all_length labels_in_range_def)
  let ?acc' = "(fst acc + (- (?f ! nat (y ! i)) + ln (sum_list (map exp ?f))),
                grad_cols x (y ! i) ?f [0..<ncols W] (snd acc))"
  have step: "naive_loop W y i (x # xs) acc = naive_loop W y (Suc i) xs ?acc'"
    using Cons.prems(1) iy yi
    by (simp add: vec_dot_score_row np_max_Max[OF ne] np_index_nat Let_def)
  from Cons.IH[of "Suc i" ?acc'] Cons.prems
  obtain g where g: "naive_loop W y (Suc i) xs ?acc' =
      Inr (fst ?acc' + (\<Sum>t<length xs. row_loss (row_shifted (map (score_row W) xs) ! t) (nat (y ! (Suc i + t)))), g)"
    by auto
  have "(\<Sum>t<length (x # xs). row_loss (row_shifted (map (score_row W) (x # xs)) ! t) (nat (y ! (i + t))))
      = row_loss ?f (nat (y ! i))
        + (\<Sum>t<length xs. row_loss (row_shifted (map (score_row W) xs) ! t) (nat (y ! (Suc i + t))))"
    by (simp add: sum.lessThan_Suc_shift row_shifted_def del: sum.lessThan_Suc)
  then show ?case unfolding step g by (simp add: row_loss_def)
qed

lemma sum_list_map2_nth:
  "length xs = length ys \<Longrightarrow>
     sum_list (map2 g xs ys) = (\<Sum>i<length xs. (g (xs ! i) (ys ! i) :: real))"
  by (simp add: sum_list_sum_nth atLeast0LessThan)

lemma index_all_nat: "labels_in_range C y \<Longrightarrow> index_all C y = Inr (map nat y)"
  by (induction y) (simp_all add: labels_in_range_def np_index_nat)

lemma mat_dot_scores:
  "ncols X = shape0 W \<Longrightarrow> mat_dot X W = Inr \<lparr>ncols = ncols W, rows = scores_of W X\<rparr>"
  by (simp add: mat_dot_def scores_of_def score_row_def)

lemma concat_scores_nonempty:
  "0 < shape0 X \<Longrightarrow> 0 < ncols W \<Longrightarrow> concat (scores_of W X) \<noteq> []"
  by (cases "rows X") (simp_all add: shape0_def scores_of_def score_row_def)

lemma vectorized_unfold:
  assumes "ncols X = shape0 W" "0 < shape0 X" "0 < ncols W"
    and "length y = shape0 X" "labels_in_range (ncols W) y"
  shows "softmax_loss_vectorized W X y reg =
     (let f = global_shifted (scores_of W X) in
      Inr (sum_list (map2 (\<lambda>c s. - c + ln s) (map2 (\<lambda>r k. r ! k) f (map nat y))
                       (map sum_list (map (map exp) f))) / real (shape0 X)
             + 0.5 * reg * sum_squares W,
           average_and_regularize
             (map (\<lambda>r. map (\<lambda>j. dot r (column \<lparr>ncols = ncols W, rows = probs_minus f (map nat y)\<rparr> j)) [0..<ncols W])
                (rows (transpose_nd X)))
             (shape0 X) reg W))"
proof -
  have len: "length (probs_minus (global_shifted (scores_of W X)) (map nat y)) = shape0 X"
    using assms(4) by (simp add: probs_minus_def global_shifted_def scores_of_def shape0_def)
  have md: "mat_dot (transpose_nd X) \<lparr>ncols = ncols W, rows = probs_minus (global_shifted (scores_of W X)) (map nat y)\<rparr>
      = Inr \<lparr>ncols = ncols W, rows = map (\<lambda>r. map (\<lambda>j. dot r (column \<lparr>ncols = ncols W, rows = probs_minus (global_shifted (scores_of W X)) (map nat y)\<rparr> j)) [0..<ncols W])
                (rows (transpose_nd X))\<rparr>"
    using len by (simp add: mat_dot_def transpose_nd_def shape0_def)
  have mx: "np_max (concat (scores_of W X)) = Inr (Max (set (concat (scores_of W X))))"
    by (rule np_max_Max[OF concat_scores_nonempty[OF assms(2,3)]])
  have fi: "fancy_index (ncols W) (shape0 X) y = Inr (map nat y)"
    by (simp add: fancy_index_def assms(4) index_all_nat[OF assms(5)])
  show ?thesis
    unfolding softmax_loss_vectorized_def Let_def mat_dot_scores[OF assms(1)]
    by (simp only: ndarray.simps mx fi sum.case global_shifted_def[symmetric]
          probs_minus_def[symmetric] md)
qed


lemma loss_sum_rows:
  assumes "length ks = length f"
  shows "sum_list (map2 (\<lambda>c s. - c + ln s) (map2 (\<lambda>r k. r ! k) f ks)
            (map sum_list (map (map exp) f)))
         = (\<Sum>i<length f. row_loss (f ! i) (ks ! i))"
proof -
  have "sum_list (map2 (\<lambda>c s. - c + ln s) (map2 (\<lambda>r k. r ! k) f ks)
            (map sum_list (map (map exp) f)))
        = (\<Sum>i<length (map2 (\<lambda>r k. r ! k) f ks).
             - (map2 (\<lambda>r k. r ! k) f ks ! i) + ln (map sum_list (map (map exp) f) ! i))"
    by (rule sum_list_map2_nth) (simp add: assms)
  also have "\<dots> = (\<Sum>i<length f. row_loss (f ! i) (ks ! i))"
    using assms by (intro sum.cong) (simp_all add: row_loss_def)
  finally show ?thesis .
qed

lemma length_global_shifted [simp]: "length (global_shifted S) = length S"
  by (simp add: global_shifted_def)

lemma length_row_shifted [simp]: "length (row_shifted S) = length S"
  by (simp add: row_shifted_def)

lemma length_scores_of [simp]: "length (scores_of W X) = shape0 X"
  by (simp add: scores_of_def shape0_def)

lemma scores_of_nth_length: "i < shape0 X \<Longrightarrow> length (scores_of W X ! i) = ncols W"
  by (simp add: scores_of_def shape0_def)

lemma labels_nth: "labels_in_range C y \<Longrightarrow> i < length y \<Longrightarrow> nat (y ! i) < C"
  by (auto simp: labels_in_range_def list_all_length)

lemma labels_pos: "labels_in_range C y \<Longrightarrow> y \<noteq> [] \<Longrightarrow> 0 < C"
  by (cases y) (auto simp: labels_in_range_def)

lemma mean_loss_global:
  assumes "length y = shape0 X" "labels_in_range (ncols W) y"
  shows "mean_loss (global_shifted (scores_of W X)) y = mean_loss (scores_of W X) y"
proof -
  have "row_loss (global_shifted (scores_of W X) ! i) (nat (y ! i))
        = row_loss (scores_of W X ! i) (nat (y ! i))" if "i < shape0 X" for i
    using that labels_nth[OF assms(2), of i] assms(1)
    by (simp add: global_shifted_def row_loss_shift scores_of_nth_length)
  then show ?thesis by (simp add: mean_loss_def)
qed

lemma mean_loss_row:
  assumes "length y = shape0 X" "labels_in_range (ncols W) y"
  shows "mean_loss (row_shifted (scores_of W X)) y = mean_loss (scores_of W X) y"
proof -
  have "row_loss (row_shifted (scores_of W X) ! i) (nat (y ! i))
        = row_loss (scores_of W X ! i) (nat (y ! i))" if "i < shape0 X" for i
    using that labels_nth[OF assms(2), of i] assms(1)
    by (simp add: row_shifted_def row_loss_shift scores_of_nth_length)
  then show ?thesis by (simp add: mean_loss_def)
qed

lemma vectorized_loss:
  assumes "ncols X = shape0 W" "0 < shape0 X"
    and "length y = shape0 X" "labels_in_range (ncols W) y"
  shows "\<exists>dW. softmax_loss_vectorized W X y reg =
           Inr (mean_loss (global_shifted (scores_of W X)) y + reg_term reg W, dW)"
proof -
  have "y \<noteq> []" using assms(2,3) by (cases y) simp_all
  then have C: "0 < ncols W" by (rule labels_pos[OF assms(4)])
  let ?f = "global_shifted (scores_of W X)"
  have "sum_list (map2 (\<lambda>c s. - c + ln s) (map2 (\<lambda>r k. r ! k) ?f (map nat y))
            (map sum_list (map (map exp) ?f)))
        = (\<Sum>i<length ?f. row_loss (?f ! i) (map nat y ! i))"
    by (rule loss_sum_rows) (simp add: assms(3))
  also have "\<dots> = (\<Sum>i<shape0 X. row_loss (?f ! i) (nat (y ! i)))"
    using assms(3) by (intro sum.cong) simp_all
  finally have L: "sum_list (map2 (\<lambda>c s. - c + ln s) (map2 (\<lambda>r k. r ! k) ?f (map nat y))
            (map sum_list (map (map exp) ?f)))
        = (\<Sum>i<shape0 X. row_loss (?f ! i) (nat (y ! i)))" .
  show ?thesis
    unfolding vectorized_unfold[OF assms(1,2) C assms(3,4)] Let_def L
    by (simp add: mean_loss_def reg_term_def)
qed

lemma naive_loss:
  assumes "wf_ndarray X" "ncols X = shape0 W" "0 < shape0 X"
    and "length y = shape0 X" "labels_in_range (ncols W) y"
  shows "\<exists>dW. softmax_loss_naive W X y reg =
           Inr (mean_loss (row_shifted (scores_of W X)) y + reg_term reg W, dW)"
proof -
  have "y \<noteq> []" using assms(3,4) by (cases y) simp_all
  then have C: "0 < ncols W" by (rule labels_pos[OF assms(5)])
  have rowsX: "list_all (\<lambda>x. length x = shape0 W) (rows X)"
    using assms(1,2) by (simp add: wf_ndarray_def)
  from naive_loop_loss[OF rowsX C _ assms(5), of 0 "(0, zeros_like W)"] assms(4)
  obtain g where "naive_loop W y 0 (rows X) (0, zeros_like W) =
      Inr (fst (0::real, zeros_like W) + (\<Sum>t<length (rows X). row_loss (row_shifted (map (score_row W) (rows X)) ! t) (nat (y ! (0 + t)))), g)"
    by (auto simp: shape0_def)
  then show ?thesis using assms(3)
    by (simp add: softmax_loss_naive_def mean_loss_def reg_term_def scores_of_def shape0_def Let_def)
qed

subsection \<open>An empty batch\<close>

text \<open>
  C7. With no example (\<open>X\<close> has zero rows) both functions raise instead of returning a
  loss or a gradient: the naive one divides the Python float \<open>0.0\<close> by zero
  (ZeroDivisionError), the vectorized one raises ValueError, from \<open>np.dot\<close> when the
  shapes are not aligned and from \<open>np.max\<close> of the zero-size score matrix otherwise.
\<close>

theorem empty_batch_raises:
  assumes "shape0 X = 0"
  shows "softmax_loss_naive W X y reg = Inl ZeroDivisionError
         \<and> (\<exists>msg. softmax_loss_vectorized W X y reg = Inl (ValueError msg))"
  using assms
  by (simp add: softmax_loss_naive_def softmax_loss_vectorized_def shape0_def mat_dot_def np_max_def)

theorem empty_batch_raises_witness:
  "shape0 \<lparr>ncols = 1, rows = []\<rparr> = 0
   \<and> softmax_loss_naive \<lparr>ncols = 2, rows = [[0, 0]]\<rparr> \<lparr>ncols = 1, rows = []\<rparr> [] 0 = Inl ZeroDivisionError
   \<and> (\<exists>msg. softmax_loss_vectorized \<lparr>ncols = 2, rows = [[0, 0]]\<rparr> \<lparr>ncols = 1, rows = []\<rparr> [] 0
          = Inl (ValueError msg))"
proof -
  have h: "shape0 \<lparr>ncols = 1, rows = []\<rparr> = 0" by (simp add: shape0_def)
  show ?thesis
    using h empty_batch_raises[OF h, of "\<lparr>ncols = 2, rows = [[0, 0]]\<rparr>" "[]" 0] by simp
qed

subsection \<open>The looped and the vectorized gradient\<close>

text \<open>
  C3. The claim is that the two implementations return the same pair. On one example
  \<open>x = [2]\<close> with two classes, zero weights, label \<open>0\<close> and \<open>reg = 0\<close> they return the
  same loss \<open>ln 2\<close> and different gradients: the loop of the naive function adds the
  probability to the scaled row instead of multiplying the row by
  \<open>probability - indicator\<close>.
\<close>

theorem naive_vectorized_gradients_differ:
  "softmax_loss_naive \<lparr>ncols = 2, rows = [[0, 0]]\<rparr> \<lparr>ncols = 1, rows = [[2]]\<rparr> [0] 0
     = Inr (ln 2, \<lparr>ncols = 2, rows = [[- 3 / 2, 1 / 2]]\<rparr>)
   \<and> softmax_loss_vectorized \<lparr>ncols = 2, rows = [[0, 0]]\<rparr> \<lparr>ncols = 1, rows = [[2]]\<rparr> [0] 0
     = Inr (ln 2, \<lparr>ncols = 2, rows = [[- 1, 1]]\<rparr>)"
  by (simp add: softmax_loss_naive_def softmax_loss_vectorized_def shape0_def zeros_like_def
      vec_dot_def mat_dot_def dot_def column_def np_max_def np_index_def fancy_index_def
      add_col_def transpose_nd_def sum_squares_def average_and_regularize_def upt_rec)

subsection \<open>The loss is the mean of the per-row contributions\<close>

lemma row_loss_add:
  assumes "k < length s"
  shows "row_loss (map (\<lambda>v. v + c) s) k = row_loss s k"
  using row_loss_shift[OF assms, of "- c"] by simp

text \<open>
  C1. For \<open>W\<close> of shape \<open>(D, C)\<close>, \<open>X\<close> of shape \<open>(N, D)\<close> with \<open>N \<ge> 1\<close>, labels in
  \<open>[0, C)\<close> and any \<open>reg\<close>, both functions return as loss the mean over the rows of
  \<open>- shifted[i, y[i]] + log (sum_j exp shifted[i, j])\<close> plus \<open>0.5 * reg * sum (W * W)\<close>,
  where the shifted scores are the scores minus the maximum the function subtracts: the
  maximum of the row in the naive function, the maximum of the matrix in the vectorized one.
\<close>

theorem loss_is_mean_of_shifted_row_losses:
  assumes "wf_ndarray X" "ncols X = shape0 W" "1 \<le> shape0 X"
    and "length y = shape0 X" "labels_in_range (ncols W) y"
  shows "(\<exists>dW. softmax_loss_naive W X y reg =
            Inr (mean_loss (row_shifted (scores_of W X)) y + reg_term reg W, dW))
       \<and> (\<exists>dW. softmax_loss_vectorized W X y reg =
            Inr (mean_loss (global_shifted (scores_of W X)) y + reg_term reg W, dW))"
proof -
  have N: "0 < shape0 X" using assms(3) by simp
  show ?thesis
    using naive_loss[OF assms(1,2) N assms(4,5)] vectorized_loss[OF assms(2) N assms(4,5)]
    by blast
qed

theorem loss_is_mean_of_shifted_row_losses_witness:
  "wf_ndarray \<lparr>ncols = 2, rows = [[1, 2], [3, 1]]\<rparr>
   \<and> ncols \<lparr>ncols = 2, rows = [[1, 2], [3, 1]]\<rparr> = shape0 \<lparr>ncols = 2, rows = [[1, 0], [0, 1]]\<rparr>
   \<and> 1 \<le> shape0 \<lparr>ncols = 2, rows = [[1, 2], [3, 1]]\<rparr>
   \<and> length [1, 0 :: int] = shape0 \<lparr>ncols = 2, rows = [[1, 2], [3, 1]]\<rparr>
   \<and> labels_in_range (ncols \<lparr>ncols = 2, rows = [[1, 0], [0, 1]]\<rparr>) [1, 0]
   \<and> (\<exists>dW. softmax_loss_naive \<lparr>ncols = 2, rows = [[1, 0], [0, 1]]\<rparr>
               \<lparr>ncols = 2, rows = [[1, 2], [3, 1]]\<rparr> [1, 0] (1 / 2) =
            Inr (mean_loss (row_shifted (scores_of \<lparr>ncols = 2, rows = [[1, 0], [0, 1]]\<rparr>
                   \<lparr>ncols = 2, rows = [[1, 2], [3, 1]]\<rparr>)) [1, 0]
                 + reg_term (1 / 2) \<lparr>ncols = 2, rows = [[1, 0], [0, 1]]\<rparr>, dW))
   \<and> (\<exists>dW. softmax_loss_vectorized \<lparr>ncols = 2, rows = [[1, 0], [0, 1]]\<rparr>
               \<lparr>ncols = 2, rows = [[1, 2], [3, 1]]\<rparr> [1, 0] (1 / 2) =
            Inr (mean_loss (global_shifted (scores_of \<lparr>ncols = 2, rows = [[1, 0], [0, 1]]\<rparr>
                   \<lparr>ncols = 2, rows = [[1, 2], [3, 1]]\<rparr>)) [1, 0]
                 + reg_term (1 / 2) \<lparr>ncols = 2, rows = [[1, 0], [0, 1]]\<rparr>, dW))"
proof -
  let ?W = "\<lparr>ncols = 2, rows = [[1, 0], [0, 1]]\<rparr>"
  let ?X = "\<lparr>ncols = 2, rows = [[1, 2], [3, 1]]\<rparr>"
  have h1: "wf_ndarray ?X" by (simp add: wf_ndarray_def)
  have h2: "ncols ?X = shape0 ?W" by (simp add: shape0_def)
  have h3: "1 \<le> shape0 ?X" by (simp add: shape0_def)
  have h4: "length [1, 0 :: int] = shape0 ?X" by (simp add: shape0_def)
  have h5: "labels_in_range (ncols ?W) [1, 0]" by (simp add: labels_in_range_def)
  from loss_is_mean_of_shifted_row_losses[OF h1 h2 h3 h4 h5, of "1 / 2"] h1 h2 h3 h4 h5
  show ?thesis by blast
qed

subsection \<open>Shift invariance\<close>

text \<open>
  C9. Under the same conditions the loss of both functions is the loss computed from the
  unshifted scores; and the mean loss of a score matrix does not change when a constant,
  one per row, is added to every score of the row.
\<close>

theorem loss_equals_unshifted_loss:
  assumes "wf_ndarray X" "ncols X = shape0 W" "1 \<le> shape0 X"
    and "length y = shape0 X" "labels_in_range (ncols W) y"
    and "length cs = shape0 X"
  shows "(\<exists>dW. softmax_loss_naive W X y reg =
            Inr (mean_loss (scores_of W X) y + reg_term reg W, dW))
       \<and> (\<exists>dW. softmax_loss_vectorized W X y reg =
            Inr (mean_loss (scores_of W X) y + reg_term reg W, dW))
       \<and> mean_loss (map2 (\<lambda>c s. map (\<lambda>v. v + c) s) cs (scores_of W X)) y
           = mean_loss (scores_of W X) y"
proof -
  have N: "0 < shape0 X" using assms(3) by simp
  have "row_loss (map2 (\<lambda>c s. map (\<lambda>v. v + c) s) cs (scores_of W X) ! i) (nat (y ! i))
        = row_loss (scores_of W X ! i) (nat (y ! i))" if "i < shape0 X" for i
    using that labels_nth[OF assms(5), of i] assms(4,6)
    by (simp add: row_loss_add scores_of_nth_length)
  then have shift: "mean_loss (map2 (\<lambda>c s. map (\<lambda>v. v + c) s) cs (scores_of W X)) y
           = mean_loss (scores_of W X) y"
    using assms(6) by (simp add: mean_loss_def)
  show ?thesis
    using naive_loss[OF assms(1,2) N assms(4,5), of reg]
      vectorized_loss[OF assms(2) N assms(4,5), of reg] shift
    by (simp add: mean_loss_row[OF assms(4,5)] mean_loss_global[OF assms(4,5)])
qed

theorem loss_equals_unshifted_loss_witness:
  "wf_ndarray \<lparr>ncols = 2, rows = [[1, 2], [3, 1]]\<rparr>
   \<and> ncols \<lparr>ncols = 2, rows = [[1, 2], [3, 1]]\<rparr> = shape0 \<lparr>ncols = 2, rows = [[1, 0], [0, 1]]\<rparr>
   \<and> 1 \<le> shape0 \<lparr>ncols = 2, rows = [[1, 2], [3, 1]]\<rparr>
   \<and> length [1, 0 :: int] = shape0 \<lparr>ncols = 2, rows = [[1, 2], [3, 1]]\<rparr>
   \<and> labels_in_range (ncols \<lparr>ncols = 2, rows = [[1, 0], [0, 1]]\<rparr>) [1, 0]
   \<and> length [5, - 7 :: real] = shape0 \<lparr>ncols = 2, rows = [[1, 2], [3, 1]]\<rparr>
   \<and> (\<exists>dW. softmax_loss_naive \<lparr>ncols = 2, rows = [[1, 0], [0, 1]]\<rparr>
               \<lparr>ncols = 2, rows = [[1, 2], [3, 1]]\<rparr> [1, 0] (1 / 2) =
            Inr (mean_loss (scores_of \<lparr>ncols = 2, rows = [[1, 0], [0, 1]]\<rparr>
                   \<lparr>ncols = 2, rows = [[1, 2], [3, 1]]\<rparr>) [1, 0]
                 + reg_term (1 / 2) \<lparr>ncols = 2, rows = [[1, 0], [0, 1]]\<rparr>, dW))
   \<and> (\<exists>dW. softmax_loss_vectorized \<lparr>ncols = 2, rows = [[1, 0], [0, 1]]\<rparr>
               \<lparr>ncols = 2, rows = [[1, 2], [3, 1]]\<rparr> [1, 0] (1 / 2) =
            Inr (mean_loss (scores_of \<lparr>ncols = 2, rows = [[1, 0], [0, 1]]\<rparr>
                   \<lparr>ncols = 2, rows = [[1, 2], [3, 1]]\<rparr>) [1, 0]
                 + reg_term (1 / 2) \<lparr>ncols = 2, rows = [[1, 0], [0, 1]]\<rparr>, dW))
   \<and> mean_loss (map2 (\<lambda>c s. map (\<lambda>v. v + c) s) [5, - 7]
         (scores_of \<lparr>ncols = 2, rows = [[1, 0], [0, 1]]\<rparr> \<lparr>ncols = 2, rows = [[1, 2], [3, 1]]\<rparr>)) [1, 0]
       = mean_loss (scores_of \<lparr>ncols = 2, rows = [[1, 0], [0, 1]]\<rparr>
           \<lparr>ncols = 2, rows = [[1, 2], [3, 1]]\<rparr>) [1, 0]"
proof -
  let ?W = "\<lparr>ncols = 2, rows = [[1, 0], [0, 1]]\<rparr>"
  let ?X = "\<lparr>ncols = 2, rows = [[1, 2], [3, 1]]\<rparr>"
  have h1: "wf_ndarray ?X" by (simp add: wf_ndarray_def)
  have h2: "ncols ?X = shape0 ?W" by (simp add: shape0_def)
  have h3: "1 \<le> shape0 ?X" by (simp add: shape0_def)
  have h4: "length [1, 0 :: int] = shape0 ?X" by (simp add: shape0_def)
  have h5: "labels_in_range (ncols ?W) [1, 0]" by (simp add: labels_in_range_def)
  have h6: "length [5, - 7 :: real] = shape0 ?X" by (simp add: shape0_def)
  from loss_equals_unshifted_loss[OF h1 h2 h3 h4 h5 h6, of "1 / 2"] h1 h2 h3 h4 h5 h6
  show ?thesis by blast
qed

subsection \<open>The vectorized gradient\<close>

lemma sum_exp_nth: "sum_list (map exp (s::real list)) = (\<Sum>k<length s. exp (s ! k))"
  by (simp add: sum_list_sum_nth atLeast0LessThan)

lemma probs_minus_entry:
  assumes "i < length f" "length ks = length f" "j < length (f ! i)"
  shows "probs_minus f ks ! i ! j
         = softmax_prob (f ! i) j + (if j = ks ! i then - 1 else 0)"
  using assms
  by (simp add: probs_minus_def softmax_prob_def sum_exp_nth nth_list_update)

lemma length_probs_minus: "length ks = length f \<Longrightarrow> length (probs_minus f ks) = length f"
  by (simp add: probs_minus_def)

lemma dot_columns:
  assumes "length P = shape0 X"
  shows "dot (column X d) (column \<lparr>ncols = C, rows = P\<rparr> j)
         = (\<Sum>i<shape0 X. rows X ! i ! d * (P ! i ! j))"
proof -
  have "dot (column X d) (column \<lparr>ncols = C, rows = P\<rparr> j)
        = sum_list (map2 (*) (map (\<lambda>r. r ! d) (rows X)) (map (\<lambda>r. r ! j) P))"
    by (simp add: dot_def column_def)
  also have "\<dots> = (\<Sum>i<length (map (\<lambda>r. r ! d) (rows X)).
        map (\<lambda>r. r ! d) (rows X) ! i * map (\<lambda>r. r ! j) P ! i)"
    by (rule sum_list_map2_nth) (simp add: assms shape0_def)
  also have "\<dots> = (\<Sum>i<shape0 X. rows X ! i ! d * (P ! i ! j))"
    using assms by (intro sum.cong) (simp_all add: shape0_def)
  finally show ?thesis .
qed

lemma global_shifted_nth_length:
  "i < shape0 X \<Longrightarrow> length (global_shifted (scores_of W X) ! i) = ncols W"
  by (simp add: global_shifted_def scores_of_nth_length)

lemma vectorized_gradient_entries:
  assumes "wf_ndarray W" "ncols X = shape0 W" "0 < shape0 X"
    and "length y = shape0 X" "labels_in_range (ncols W) y"
  shows "\<exists>loss dW. softmax_loss_vectorized W X y reg = Inr (loss, dW)
           \<and> ncols dW = ncols W \<and> shape0 dW = shape0 W \<and> wf_ndarray dW
           \<and> (\<forall>d<shape0 W. \<forall>j<ncols W. rows dW ! d ! j = spec_dW W X y reg d j)"
proof -
  have "y \<noteq> []" using assms(3,4) by (cases y) simp_all
  then have C: "0 < ncols W" by (rule labels_pos[OF assms(5)])
  let ?f = "global_shifted (scores_of W X)"
  let ?P = "probs_minus ?f (map nat y)"
  let ?G = "map (\<lambda>r. map (\<lambda>j. dot r (column \<lparr>ncols = ncols W, rows = ?P\<rparr> j)) [0..<ncols W])
                (rows (transpose_nd X))"
  let ?dW = "average_and_regularize ?G (shape0 X) reg W"
  have lenP: "length ?P = shape0 X"
    using assms(4) by (simp add: length_probs_minus)
  have rowW: "length (rows W ! d) = ncols W" if "d < shape0 W" for d
    using assms(1) that by (simp add: wf_ndarray_def list_all_length shape0_def)
  have entryP: "?P ! i ! j = softmax_prob (?f ! i) j - (if int j = y ! i then 1 else 0)"
    if "i < shape0 X" "j < ncols W" for i j
  proof -
    have "0 \<le> y ! i" using assms(4,5) that(1) by (simp add: labels_in_range_def list_all_length)
    then have "(j = nat (y ! i)) = (int j = y ! i)" by auto
    then show ?thesis
      using that assms(4) by (simp add: probs_minus_entry global_shifted_nth_length)
  qed
  have entry: "rows ?dW ! d ! j = spec_dW W X y reg d j" if d: "d < shape0 W" and j: "j < ncols W" for d j
  proof -
    have "rows ?dW ! d ! j
          = dot (column X d) (column \<lparr>ncols = ncols W, rows = ?P\<rparr> j) / real (shape0 X)
            + reg * (rows W ! d ! j)"
      using d j rowW[OF d] assms(2)
      by (simp add: average_and_regularize_def transpose_nd_def shape0_def)
    also have "dot (column X d) (column \<lparr>ncols = ncols W, rows = ?P\<rparr> j)
          = (\<Sum>i<shape0 X. rows X ! i ! d * (?P ! i ! j))"
      by (rule dot_columns[OF lenP])
    also have "\<dots> = (\<Sum>i<shape0 X. rows X ! i ! d
                        * (softmax_prob (?f ! i) j - (if int j = y ! i then 1 else 0)))"
      using entryP j by (intro sum.cong) simp_all
    finally show ?thesis
      by (simp add: spec_dW_def d_scores_def sum_divide_distrib)
  qed
  have shape: "shape0 ?dW = shape0 W"
    using assms(2) by (simp add: average_and_regularize_def transpose_nd_def shape0_def)
  have wf: "wf_ndarray ?dW"
    using assms(1,2)
    by (auto simp: average_and_regularize_def transpose_nd_def shape0_def wf_ndarray_def
        list_all_length)
  have "softmax_loss_vectorized W X y reg = Inr
     (sum_list (map2 (\<lambda>c s. - c + ln s) (map2 (\<lambda>r k. r ! k) ?f (map nat y))
                       (map sum_list (map (map exp) ?f))) / real (shape0 X)
             + 0.5 * reg * sum_squares W, ?dW)"
    using vectorized_unfold[OF assms(2,3) C assms(4,5), of reg] by (simp only: Let_def)
  moreover have "ncols ?dW = ncols W" by (simp add: average_and_regularize_def)
  ultimately show ?thesis using shape wf entry by blast
qed

text \<open>
  C2. For \<open>W\<close> of shape \<open>(D, C)\<close>, \<open>X\<close> of shape \<open>(N, D)\<close> with \<open>N \<ge> 1\<close>, labels in
  \<open>[0, C)\<close> and any \<open>reg\<close>, the gradient returned by the vectorized function has the
  shape of \<open>W\<close> and its entry \<open>(d, j)\<close> is that of \<open>X^T \<cdot> d_scores + reg \<cdot> W\<close>, with
  \<open>d_scores[i, j] = (softmax_prob[i, j] - 1{j = y[i]}) / N\<close> on the shifted scores.
\<close>

theorem vectorized_gradient_is_XT_dscores_plus_reg_W:
  assumes "wf_ndarray W" "ncols X = shape0 W" "1 \<le> shape0 X"
    and "length y = shape0 X" "labels_in_range (ncols W) y"
  shows "\<exists>loss dW. softmax_loss_vectorized W X y reg = Inr (loss, dW)
           \<and> ncols dW = ncols W \<and> shape0 dW = shape0 W \<and> wf_ndarray dW
           \<and> (\<forall>d<shape0 W. \<forall>j<ncols W. rows dW ! d ! j = spec_dW W X y reg d j)"
proof -
  have N: "0 < shape0 X" using assms(3) by simp
  show ?thesis by (rule vectorized_gradient_entries[OF assms(1,2) N assms(4,5)])
qed

theorem vectorized_gradient_is_XT_dscores_plus_reg_W_witness:
  "wf_ndarray \<lparr>ncols = 2, rows = [[1, 0], [0, 1]]\<rparr>
   \<and> ncols \<lparr>ncols = 2, rows = [[1, 2], [3, 1]]\<rparr> = shape0 \<lparr>ncols = 2, rows = [[1, 0], [0, 1]]\<rparr>
   \<and> 1 \<le> shape0 \<lparr>ncols = 2, rows = [[1, 2], [3, 1]]\<rparr>
   \<and> length [1, 0 :: int] = shape0 \<lparr>ncols = 2, rows = [[1, 2], [3, 1]]\<rparr>
   \<and> labels_in_range (ncols \<lparr>ncols = 2, rows = [[1, 0], [0, 1]]\<rparr>) [1, 0]
   \<and> (\<exists>loss dW. softmax_loss_vectorized \<lparr>ncols = 2, rows = [[1, 0], [0, 1]]\<rparr>
               \<lparr>ncols = 2, rows = [[1, 2], [3, 1]]\<rparr> [1, 0] (1 / 2) = Inr (loss, dW)
         \<and> ncols dW = 2 \<and> shape0 dW = 2
         \<and> rows dW ! 0 ! 1 = spec_dW \<lparr>ncols = 2, rows = [[1, 0], [0, 1]]\<rparr>
               \<lparr>ncols = 2, rows = [[1, 2], [3, 1]]\<rparr> [1, 0] (1 / 2) 0 1
         \<and> rows dW ! 1 ! 0 = spec_dW \<lparr>ncols = 2, rows = [[1, 0], [0, 1]]\<rparr>
               \<lparr>ncols = 2, rows = [[1, 2], [3, 1]]\<rparr> [1, 0] (1 / 2) 1 0)"
proof -
  let ?W = "\<lparr>ncols = 2, rows = [[1, 0], [0, 1]]\<rparr>"
  let ?X = "\<lparr>ncols = 2, rows = [[1, 2], [3, 1]]\<rparr>"
  have h1: "wf_ndarray ?W" by (simp add: wf_ndarray_def)
  have h2: "ncols ?X = shape0 ?W" by (simp add: shape0_def)
  have h3: "1 \<le> shape0 ?X" by (simp add: shape0_def)
  have h4: "length [1, 0 :: int] = shape0 ?X" by (simp add: shape0_def)
  have h5: "labels_in_range (ncols ?W) [1, 0]" by (simp add: labels_in_range_def)
  have s: "shape0 ?W = 2" "ncols ?W = 2" by (simp_all add: shape0_def)
  from vectorized_gradient_is_XT_dscores_plus_reg_W[OF h1 h2 h3 h4 h5, of "1 / 2"]
  obtain loss dW where r: "softmax_loss_vectorized ?W ?X [1, 0] (1 / 2) = Inr (loss, dW)"
      "ncols dW = ncols ?W" "shape0 dW = shape0 ?W"
      "\<forall>d<shape0 ?W. \<forall>j<ncols ?W. rows dW ! d ! j = spec_dW ?W ?X [1, 0] (1 / 2) d j"
    by blast
  from r(4) have "rows dW ! 0 ! 1 = spec_dW ?W ?X [1, 0] (1 / 2) 0 1"
      "rows dW ! 1 ! 0 = spec_dW ?W ?X [1, 0] (1 / 2) 1 0"
    unfolding s by simp_all
  with r(1,2,3) h1 h2 h3 h4 h5 show ?thesis unfolding s by blast
qed

section \<open>Properties of the network models\<close>

subsection \<open>Evaluation on concrete data\<close>

lemma bind_err_simps [simp]:
  "bind_err (Inl e) f = Inl e" "bind_err (Inr v) f = f v"
  by (simp_all add: bind_err_def)

lemma bind_err_weak_cong: "r = r' \<Longrightarrow> bind_err r f = bind_err r' f"
  by simp

lemma str_nat_digit: "n < 10 \<Longrightarrow> str_nat n = [digit_char n]"
  by (simp add: str_nat.simps)

lemma digit_chars:
  "digit_char 0 = CHR ''0''" "digit_char 1 = CHR ''1''" "digit_char 2 = CHR ''2''"
  "digit_char 3 = CHR ''3''" "digit_char (Suc 0) = CHR ''1''"
  by (simp_all add: digit_char_def)

lemma str_nat_small:
  "str_nat 0 = ''0''" "str_nat 1 = ''1''" "str_nat 2 = ''2''" "str_nat 3 = ''3''"
  "str_nat (Suc 0) = ''1''"
  by (simp_all add: str_nat_digit digit_chars del: One_nat_def)

lemma draw_list_fixed: "draw_list (\<lambda>g. (c, Suc g)) n g = (replicate n c, g + n)"
  by (induction n arbitrary: g) simp_all

lemma draw_rows_fixed: "draw_rows (\<lambda>g. (c, Suc g)) n k g = (replicate n (replicate k c), g + n * k)"
  by (induction n arbitrary: g) (simp_all add: draw_list_fixed)

lemma upt_small:
  "[0..<1] = [0]" "[0..<2] = [0, 1]" "[0..<Suc 0] = [0]" "[0..<3] = [0, 1, 2]"
  by (simp_all add: upt_rec)

lemmas eval_defs =
  FullyConnectedNet_init_def FullyConnectedNet_loss_def fixed_rng_def upt_rec list_get_def
  np_random_def np_zeros_def np_full_def as_size_def shape_error_def draw_rows_fixed str_nat_small scale_def
  dict_set_def dict_update_def dict_get_def get_act_def get_cache_def keys_def
  ref_layers_def ref_affine_forward_def ref_affine_relu_forward_def ref_softmax_loss_def
  relu_def mat_dot_def transpose_nd_def column_def dot_def shape0_def fancy_index_def
  np_index_def Let_def

lemma affine_example:
  "ref_affine_forward \<lparr>ncols = 1, rows = [[1], [3]]\<rparr> (Mat \<lparr>ncols = 1, rows = [[1]]\<rparr>) (Vec [0])
   = Inr (\<lparr>ncols = 1, rows = [[1], [3]]\<rparr>,
          AffineCache \<lparr>ncols = 1, rows = [[1], [3]]\<rparr> (Mat \<lparr>ncols = 1, rows = [[1]]\<rparr>) (Vec [0]))"
  by (simp add: ref_affine_forward_def mat_dot_def shape0_def column_def dot_def upt_small del: One_nat_def)

lemma affine_relu_example:
  "ref_affine_relu_forward \<lparr>ncols = 1, rows = [[1], [3]]\<rparr> (Mat \<lparr>ncols = 1, rows = [[1]]\<rparr>) (Vec [0])
   = Inr (\<lparr>ncols = 1, rows = [[1], [3]]\<rparr>,
          ReluCache (AffineCache \<lparr>ncols = 1, rows = [[1], [3]]\<rparr> (Mat \<lparr>ncols = 1, rows = [[1]]\<rparr>) (Vec [0]))
            \<lparr>ncols = 1, rows = [[1], [3]]\<rparr>)"
  by (simp add: ref_affine_relu_forward_def affine_example relu_def del: One_nat_def)

lemma forward_example:
  "forward_loop ref_layers
     [(''W1'', Mat \<lparr>ncols = 1, rows = [[1]]\<rparr>), (''W2'', Mat \<lparr>ncols = 1, rows = [[1]]\<rparr>),
      (''b1'', Vec [0]), (''b2'', Vec [0]), (''beta1'', Vec [0]), (''gamma1'', Vec [1])]
     2 [0, 1] [(''hidden0'', HAct \<lparr>ncols = 1, rows = [[1], [3]]\<rparr>)]
   = Inr [(''hidden0'', HAct \<lparr>ncols = 1, rows = [[1], [3]]\<rparr>),
          (''hidden1'', HAct \<lparr>ncols = 1, rows = [[1], [3]]\<rparr>),
          (''cache_hidden1'', HCache (ReluCache (AffineCache \<lparr>ncols = 1, rows = [[1], [3]]\<rparr> (Mat \<lparr>ncols = 1, rows = [[1]]\<rparr>) (Vec [0]))
            \<lparr>ncols = 1, rows = [[1], [3]]\<rparr>)),
          (''hidden2'', HAct \<lparr>ncols = 1, rows = [[1], [3]]\<rparr>),
          (''cache_hidden2'', HCache (AffineCache \<lparr>ncols = 1, rows = [[1], [3]]\<rparr> (Mat \<lparr>ncols = 1, rows = [[1]]\<rparr>) (Vec [0])))]"
  by (simp add: ref_layers_def affine_example affine_relu_example dict_get_def dict_set_def
        get_act_def str_nat_small Let_def del: One_nat_def)


lemma softmax_example:
  "ref_softmax_loss \<lparr>ncols = 1, rows = [[1], [3]]\<rparr> [0, 0]
   = Inr (0, \<lparr>ncols = 1, rows = [[0], [0]]\<rparr>)"
  by (simp add: ref_softmax_loss_def shape0_def fancy_index_def np_index_def mean_loss_def
        row_shifted_def row_loss_def d_scores_def softmax_prob_def upt_small lessThan_Suc
        del: One_nat_def)

lemma backward2_example:
  "ref_affine_backward \<lparr>ncols = 1, rows = [[0], [0]]\<rparr>
     (AffineCache \<lparr>ncols = 1, rows = [[1], [3]]\<rparr> (Mat \<lparr>ncols = 1, rows = [[1]]\<rparr>) (Vec [0]))
   = Inr (\<lparr>ncols = 1, rows = [[0], [0]]\<rparr>, Mat \<lparr>ncols = 1, rows = [[0]]\<rparr>, Vec [0])"
  by (simp add: mat_dot_def transpose_nd_def shape0_def column_def dot_def upt_small
        del: One_nat_def)

lemma backward1_example:
  "ref_affine_relu_backward \<lparr>ncols = 1, rows = [[0], [0]]\<rparr>
     (ReluCache (AffineCache \<lparr>ncols = 1, rows = [[1], [3]]\<rparr> (Mat \<lparr>ncols = 1, rows = [[1]]\<rparr>) (Vec [0]))
            \<lparr>ncols = 1, rows = [[1], [3]]\<rparr>)
   = Inr (\<lparr>ncols = 1, rows = [[0], [0]]\<rparr>, Mat \<lparr>ncols = 1, rows = [[0]]\<rparr>, Vec [0])"
  by (simp add: mat_dot_def transpose_nd_def shape0_def column_def dot_def upt_small
        del: One_nat_def)


lemma backward_example:
  "backward_loop ref_layers 2 [1, 0]
     [(''hidden0'', HAct \<lparr>ncols = 1, rows = [[1], [3]]\<rparr>),
      (''hidden1'', HAct \<lparr>ncols = 1, rows = [[1], [3]]\<rparr>),
      (''cache_hidden1'', HCache (ReluCache (AffineCache \<lparr>ncols = 1, rows = [[1], [3]]\<rparr> (Mat \<lparr>ncols = 1, rows = [[1]]\<rparr>) (Vec [0]))
            \<lparr>ncols = 1, rows = [[1], [3]]\<rparr>)),
      (''hidden2'', HAct \<lparr>ncols = 1, rows = [[1], [3]]\<rparr>),
      (''cache_hidden2'', HCache (AffineCache \<lparr>ncols = 1, rows = [[1], [3]]\<rparr> (Mat \<lparr>ncols = 1, rows = [[1]]\<rparr>) (Vec [0]))),
      (''dhidden2'', HAct \<lparr>ncols = 1, rows = [[0], [0]]\<rparr>)]
   = Inr [(''hidden0'', HAct \<lparr>ncols = 1, rows = [[1], [3]]\<rparr>),
      (''hidden1'', HAct \<lparr>ncols = 1, rows = [[1], [3]]\<rparr>),
      (''cache_hidden1'', HCache (ReluCache (AffineCache \<lparr>ncols = 1, rows = [[1], [3]]\<rparr> (Mat \<lparr>ncols = 1, rows = [[1]]\<rparr>) (Vec [0]))
            \<lparr>ncols = 1, rows = [[1], [3]]\<rparr>)),
      (''hidden2'', HAct \<lparr>ncols = 1, rows = [[1], [3]]\<rparr>),
      (''cache_hidden2'', HCache (AffineCache \<lparr>ncols = 1, rows = [[1], [3]]\<rparr> (Mat \<lparr>ncols = 1, rows = [[1]]\<rparr>) (Vec [0]))),
      (''dhidden2'', HAct \<lparr>ncols = 1, rows = [[0], [0]]\<rparr>),
      (''dhidden1'', HAct \<lparr>ncols = 1, rows = [[0], [0]]\<rparr>),
      (''dW2'', HGrad (Mat \<lparr>ncols = 1, rows = [[0]]\<rparr>)),
      (''db2'', HGrad (Vec [0])),
      (''dhidden0'', HAct \<lparr>ncols = 1, rows = [[0], [0]]\<rparr>),
      (''dW1'', HGrad (Mat \<lparr>ncols = 1, rows = [[0]]\<rparr>)),
      (''db1'', HGrad (Vec [0]))]"
proof -
  have a: "affine_backward ref_layers = ref_affine_backward"
    and b: "affine_relu_backward ref_layers = ref_affine_relu_backward"
    by (simp_all add: ref_layers_def)
  show ?thesis
    by (simp add: a b backward1_example backward2_example dict_get_def dict_set_def
        get_act_def get_cache_def str_nat_small Let_def
        del: One_nat_def ref_affine_backward.simps ref_affine_relu_backward.simps)
qed


lemma init_bn_example:
  "FullyConnectedNet_init fixed_rng (PyList [PyInteger 1]) 1 1 0 True 0 2 None 0 =
     Inr (\<lparr>fc_use_batchnorm = True, fc_use_dropout = False, fc_reg = 0, fc_num_layers = 2,
            fc_params = [(''W1'', Mat \<lparr>ncols = 1, rows = [[1]]\<rparr>), (''W2'', Mat \<lparr>ncols = 1, rows = [[1]]\<rparr>),
                         (''b1'', Vec [0]), (''b2'', Vec [0]), (''beta1'', Vec [0]), (''gamma1'', Vec [1])],
            fc_L = 2, fc_N = 1, fc_C = 1,
            fc_dropout_param = [],
            fc_bn_params = [(''bn_param1'', [(''mode'', PyStr ''train''), (''running_mean'', PyArr [0]),
                              (''running_var'', PyArr [0])])]\<rparr>, 2)"
  by (simp add: eval_defs del: One_nat_def)


lemma get_scores_example:
  "get_act
     [(''hidden0'', HAct \<lparr>ncols = 1, rows = [[1], [3]]\<rparr>),
      (''hidden1'', HAct \<lparr>ncols = 1, rows = [[1], [3]]\<rparr>),
      (''cache_hidden1'', HCache (ReluCache (AffineCache \<lparr>ncols = 1, rows = [[1], [3]]\<rparr> (Mat \<lparr>ncols = 1, rows = [[1]]\<rparr>) (Vec [0]))
            \<lparr>ncols = 1, rows = [[1], [3]]\<rparr>)),
      (''hidden2'', HAct \<lparr>ncols = 1, rows = [[1], [3]]\<rparr>),
      (''cache_hidden2'', HCache (AffineCache \<lparr>ncols = 1, rows = [[1], [3]]\<rparr> (Mat \<lparr>ncols = 1, rows = [[1]]\<rparr>) (Vec [0])))]
     ''hidden2'' = Inr \<lparr>ncols = 1, rows = [[1], [3]]\<rparr>"
  by (simp add: get_act_def dict_get_def)

lemma reg_loss_example:
  "reg_loss_loop 0
     [(''W1'', Mat \<lparr>ncols = 1, rows = [[1]]\<rparr>), (''W2'', Mat \<lparr>ncols = 1, rows = [[1]]\<rparr>),
      (''b1'', Vec [0]), (''b2'', Vec [0]), (''beta1'', Vec [0]), (''gamma1'', Vec [1])]
     [''W1'', ''W2'', ''b1'', ''b2'', ''beta1'', ''gamma1''] 0 = Inr 0"
  by (simp add: dict_get_def)

lemma collect_dW_example:
  "collect_dW 0
     [(''W1'', Mat \<lparr>ncols = 1, rows = [[1]]\<rparr>), (''W2'', Mat \<lparr>ncols = 1, rows = [[1]]\<rparr>),
      (''b1'', Vec [0]), (''b2'', Vec [0]), (''beta1'', Vec [0]), (''gamma1'', Vec [1])]
     [(''hidden0'', HAct \<lparr>ncols = 1, rows = [[1], [3]]\<rparr>),
      (''hidden1'', HAct \<lparr>ncols = 1, rows = [[1], [3]]\<rparr>),
      (''cache_hidden1'', HCache (ReluCache (AffineCache \<lparr>ncols = 1, rows = [[1], [3]]\<rparr> (Mat \<lparr>ncols = 1, rows = [[1]]\<rparr>) (Vec [0]))
            \<lparr>ncols = 1, rows = [[1], [3]]\<rparr>)),
      (''hidden2'', HAct \<lparr>ncols = 1, rows = [[1], [3]]\<rparr>),
      (''cache_hidden2'', HCache (AffineCache \<lparr>ncols = 1, rows = [[1], [3]]\<rparr> (Mat \<lparr>ncols = 1, rows = [[1]]\<rparr>) (Vec [0]))),
      (''dhidden2'', HAct \<lparr>ncols = 1, rows = [[0], [0]]\<rparr>),
      (''dhidden1'', HAct \<lparr>ncols = 1, rows = [[0], [0]]\<rparr>),
      (''dW2'', HGrad (Mat \<lparr>ncols = 1, rows = [[0]]\<rparr>)),
      (''db2'', HGrad (Vec [0])),
      (''dhidden0'', HAct \<lparr>ncols = 1, rows = [[0], [0]]\<rparr>),
      (''dW1'', HGrad (Mat \<lparr>ncols = 1, rows = [[0]]\<rparr>)),
      (''db1'', HGrad (Vec [0]))] []
   = Inr [(''W2'', Mat \<lparr>ncols = 1, rows = [[0]]\<rparr>), (''W1'', Mat \<lparr>ncols = 1, rows = [[0]]\<rparr>)]"
  by (simp add: dict_get_def dict_set_def shape0_def del: One_nat_def)

lemma collect_db_example:
  "collect_db
     [(''hidden0'', HAct \<lparr>ncols = 1, rows = [[1], [3]]\<rparr>),
      (''hidden1'', HAct \<lparr>ncols = 1, rows = [[1], [3]]\<rparr>),
      (''cache_hidden1'', HCache (ReluCache (AffineCache \<lparr>ncols = 1, rows = [[1], [3]]\<rparr> (Mat \<lparr>ncols = 1, rows = [[1]]\<rparr>) (Vec [0]))
            \<lparr>ncols = 1, rows = [[1], [3]]\<rparr>)),
      (''hidden2'', HAct \<lparr>ncols = 1, rows = [[1], [3]]\<rparr>),
      (''cache_hidden2'', HCache (AffineCache \<lparr>ncols = 1, rows = [[1], [3]]\<rparr> (Mat \<lparr>ncols = 1, rows = [[1]]\<rparr>) (Vec [0]))),
      (''dhidden2'', HAct \<lparr>ncols = 1, rows = [[0], [0]]\<rparr>),
      (''dhidden1'', HAct \<lparr>ncols = 1, rows = [[0], [0]]\<rparr>),
      (''dW2'', HGrad (Mat \<lparr>ncols = 1, rows = [[0]]\<rparr>)),
      (''db2'', HGrad (Vec [0])),
      (''dhidden0'', HAct \<lparr>ncols = 1, rows = [[0], [0]]\<rparr>),
      (''dW1'', HGrad (Mat \<lparr>ncols = 1, rows = [[0]]\<rparr>)),
      (''db1'', HGrad (Vec [0]))] []
   = Inr [(''b2'', Vec [0]), (''b1'', Vec [0])]"
  by (simp add: dict_set_def del: One_nat_def)


lemma loss_bn_example:
  "FullyConnectedNet_loss ref_layers
     \<lparr>fc_use_batchnorm = True, fc_use_dropout = False, fc_reg = 0, fc_num_layers = 2,
            fc_params = [(''W1'', Mat \<lparr>ncols = 1, rows = [[1]]\<rparr>), (''W2'', Mat \<lparr>ncols = 1, rows = [[1]]\<rparr>),
                         (''b1'', Vec [0]), (''b2'', Vec [0]), (''beta1'', Vec [0]), (''gamma1'', Vec [1])],
            fc_L = 2, fc_N = 1, fc_C = 1,
            fc_dropout_param = [],
            fc_bn_params = [(''bn_param1'', [(''mode'', PyStr ''train''), (''running_mean'', PyArr [0]),
                              (''running_var'', PyArr [0])])]\<rparr>
     \<lparr>ncols = 1, rows = [[1], [3]]\<rparr> (Some [0, 0])
   = Inr (LossGrads 0 [(''W2'', Mat \<lparr>ncols = 1, rows = [[0]]\<rparr>), (''W1'', Mat \<lparr>ncols = 1, rows = [[0]]\<rparr>),
                       (''b2'', Vec [0]), (''b1'', Vec [0])],
          \<lparr>fc_use_batchnorm = True, fc_use_dropout = False, fc_reg = 0, fc_num_layers = 2,
            fc_params = [(''W1'', Mat \<lparr>ncols = 1, rows = [[1]]\<rparr>), (''W2'', Mat \<lparr>ncols = 1, rows = [[1]]\<rparr>),
                         (''b1'', Vec [0]), (''b2'', Vec [0]), (''beta1'', Vec [0]), (''gamma1'', Vec [1])],
            fc_L = 2, fc_N = 1, fc_C = 1,
            fc_dropout_param = [(''mode'', PyStr ''train'')],
            fc_bn_params = [(''bn_param1'', [(''mode'', PyStr ''train''), (''running_mean'', PyArr [0]),
                              (''running_var'', PyArr [0]), (''train'', PyStr ''train'')])]\<rparr>)"
proof -
  have s: "softmax_loss ref_layers = ref_softmax_loss" by (simp add: ref_layers_def)
  show ?thesis
    unfolding FullyConnectedNet_loss_def
    by (simp add: Let_def upt_small forward_example backward_example s softmax_example
        get_scores_example reg_loss_example collect_dW_example collect_db_example
        dict_set_def dict_update_def str_nat_small
        del: One_nat_def forward_loop.simps backward_loop.simps reg_loss_loop.simps
          collect_dW.simps collect_db.simps
        cong: bind_err_weak_cong)
qed

subsection \<open>Regularization and inference\<close>

text \<open>
  C10. For both models, any layer primitives, any input and any two values of \<open>reg\<close>,
  the inference-mode call \<open>loss(X)\<close> returns the same result (the scores, or the same
  error): \<open>reg\<close> is not read before the return of the scores.
\<close>

theorem reg_no_effect_on_scores:
  "TwoLayerNet_loss Ls (m\<lparr>tl_reg := r\<rparr>) X None = TwoLayerNet_loss Ls m X None
   \<and> map_sum id fst (FullyConnectedNet_loss Ls' (n\<lparr>fc_reg := r'\<rparr>) X' None)
       = map_sum id fst (FullyConnectedNet_loss Ls' n X' None)"
proof
  show "TwoLayerNet_loss Ls (m\<lparr>tl_reg := r\<rparr>) X None = TwoLayerNet_loss Ls m X None"
    by (simp add: TwoLayerNet_loss_def)
  show "map_sum id fst (FullyConnectedNet_loss Ls' (n\<lparr>fc_reg := r'\<rparr>) X' None)
       = map_sum id fst (FullyConnectedNet_loss Ls' n X' None)"
    by (simp add: FullyConnectedNet_loss_def Let_def bind_err_def split: sum.splits)
qed

subsection \<open>Construction errors\<close>

lemma np_full_not:
  assumes "\<forall>sh. alloc_error R sh \<noteq> Some c" "\<forall>x. float_size R x \<noteq> Inl c" "c \<noteq> negative_dims"
  shows "np_full R v d \<noteq> Inl c"
  using assms
  by (cases d) (auto simp: np_full_def as_size_def shape_error_def split: sum.splits option.splits)

lemma np_random_not:
  assumes "\<forall>sh. alloc_error R sh \<noteq> Some c" "\<forall>x. float_size R x \<noteq> Inl c" "c \<noteq> negative_dims"
  shows "np_random R f d0 d1 g \<noteq> Inl c"
  using assms
  by (cases d0; cases d1)
     (auto simp: np_random_def as_size_def shape_error_def split: sum.splits option.splits prod.splits)

lemma init_layers_not:
  assumes "\<forall>sh. alloc_error R sh \<noteq> Some c" "\<forall>x. float_size R x \<noteq> Inl c"
    and "c \<noteq> negative_dims" "c \<noteq> IndexError"
  shows "init_layers R ws dims js Ws bs g \<noteq> Inl c"
proof (induction js arbitrary: Ws bs g)
  case Nil
  show ?case by simp
next
  case (Cons i js)
  show ?case
    using np_random_not[OF assms(1,2,3)] np_full_not[OF assms(1,2,3)] assms(4) Cons.IH
    by (auto simp: list_get_def np_zeros_def split: sum.splits)
qed

lemma init_bn_params_not:
  assumes "\<forall>sh. alloc_error R sh \<noteq> Some c" "\<forall>x. float_size R x \<noteq> Inl c"
    and "c \<noteq> negative_dims" "c \<noteq> IndexError"
  shows "init_bn_params R dims js acc \<noteq> Inl c"
proof (induction js arbitrary: acc)
  case Nil
  show ?case by simp
next
  case (Cons i js)
  show ?case
    using np_full_not[OF assms(1,2,3)] assms(4) Cons.IH
    by (auto simp: list_get_def np_zeros_def split: sum.splits)
qed

lemma init_vectors_not:
  assumes "\<forall>sh. alloc_error R sh \<noteq> Some c" "\<forall>x. float_size R x \<noteq> Inl c"
    and "c \<noteq> negative_dims" "c \<noteq> IndexError"
  shows "init_vectors R name v dims js acc \<noteq> Inl c"
proof (induction js arbitrary: acc)
  case Nil
  show ?case by simp
next
  case (Cons i js)
  show ?case
    using np_full_not[OF assms(1,2,3)] assms(4) Cons.IH
    by (auto simp: list_get_def split: sum.splits)
qed

lemma fc_init_list_not:
  assumes "\<forall>sh. alloc_error R sh \<noteq> Some c" "\<forall>x. float_size R x \<noteq> Inl c"
    and "c \<noteq> negative_dims" "c \<noteq> IndexError"
  shows "FullyConnectedNet_init R (PyList hs) input_dim num_classes dropout bn r ws seed g \<noteq> Inl c"
  using init_layers_not[OF assms] init_bn_params_not[OF assms] init_vectors_not[OF assms]
  by (auto simp: FullyConnectedNet_init_def Let_def bind_err_def split: sum.splits prod.splits)

lemma fc_init_config_error:
  assumes "\<forall>sh. alloc_error R sh \<noteq> Some (ValueError ''hidden_dim has to be a list'')"
    and "\<forall>x. float_size R x \<noteq> Inl (ValueError ''hidden_dim has to be a list'')"
  shows "(FullyConnectedNet_init R arg input_dim num_classes dropout bn r ws seed g
            = Inl (ValueError ''hidden_dim has to be a list'')) = (\<exists>hs. arg = PyTuple hs)"
proof (cases arg)
  case (PyList hs)
  have "FullyConnectedNet_init R (PyList hs) input_dim num_classes dropout bn r ws seed g
        \<noteq> Inl (ValueError ''hidden_dim has to be a list'')"
    by (rule fc_init_list_not[OF assms]) (simp_all add: negative_dims_def)
  with PyList show ?thesis by simp
qed (simp_all add: FullyConnectedNet_init_def)

text \<open>A size that numpy refuses makes the construction fail, in whichever array it is used first.\<close>

lemma np_random_refused:
  "refused_size R d0 \<or> refused_size R d1 \<Longrightarrow> isl (np_random R f d0 d1 g)"
  by (auto simp: np_random_def refused_size_def shape_error_def
        split: sum.splits option.splits prod.splits)

lemma init_layers_refused:
  assumes "list_all (\<lambda>i. i + 1 < length dims) js"
    and "list_ex (\<lambda>i. refused_size R (dims ! i) \<or> refused_size R (dims ! (i + 1))) js"
  shows "isl (init_layers R ws dims js Ws bs g)"
  using assms
proof (induction js arbitrary: Ws bs g)
  case Nil
  then show ?case by simp
next
  case (Cons i js)
  show ?case
  proof (cases "refused_size R (dims ! i) \<or> refused_size R (dims ! (i + 1))")
    case True
    from np_random_refused[OF True, of "rand1 R" g]
    obtain e where "np_random R (rand1 R) (dims ! i) (dims ! (i + 1)) g = Inl e"
      by (cases "np_random R (rand1 R) (dims ! i) (dims ! (i + 1)) g") simp_all
    with Cons.prems(1) show ?thesis by (simp add: list_get_def)
  next
    case False
    with Cons.prems have rest: "list_all (\<lambda>i. i + 1 < length dims) js"
        "list_ex (\<lambda>i. refused_size R (dims ! i) \<or> refused_size R (dims ! (i + 1))) js"
      by simp_all
    show ?thesis
      using Cons.IH[OF rest] Cons.prems(1)
      by (simp add: list_get_def split: sum.splits)
  qed
qed

lemma refused_at_index:
  assumes "2 \<le> length dims" "list_ex P dims"
  shows "list_ex (\<lambda>i. P (dims ! i) \<or> P (dims ! (i + 1))) [0..<length dims - 1]"
proof -
  from assms(2) obtain j where j: "j < length dims" "P (dims ! j)"
    by (auto simp: list_ex_iff in_set_conv_nth)
  show ?thesis
  proof (cases "j < length dims - 1")
    case True
    with j show ?thesis by (auto simp: list_ex_iff)
  next
    case False
    with j assms(1) have "j - 1 < length dims - 1" "Suc (j - 1) = j" by auto
    with j(2) have "j - 1 \<in> set [0..<length dims - 1]" "P (dims ! ((j - 1) + 1))" by simp_all
    then show ?thesis unfolding list_ex_iff by blast
  qed
qed

lemma fc_init_refused:
  assumes "list_ex (refused_size R) (PyInteger input_dim # hs @ [PyInteger num_classes])"
  shows "isl (FullyConnectedNet_init R (PyList hs) input_dim num_classes dropout bn r ws seed g)"
proof -
  let ?dims = "[PyInteger input_dim] @ hs @ [PyInteger num_classes]"
  have idx: "list_all (\<lambda>i. i + 1 < length ?dims) [0..<length ?dims - 1]"
    by (simp add: list_all_iff)
  have "list_ex (\<lambda>i. refused_size R (?dims ! i) \<or> refused_size R (?dims ! (i + 1)))
          [0..<length ?dims - 1]"
    by (rule refused_at_index) (use assms in simp_all)
  from init_layers_refused[OF idx this, of ws "[]" "[]" g]
  obtain e where "init_layers R ws ?dims [0..<length ?dims - 1] [] [] g = Inl e"
    by (cases "init_layers R ws ?dims [0..<length ?dims - 1] [] [] g") simp_all
  then show ?thesis by (simp add: FullyConnectedNet_init_def Let_def)
qed

text \<open>Non-negative integer sizes whose arrays numpy creates.\<close>

lemma np_random_ok:
  assumes "0 \<le> n0" "0 \<le> n1" "alloc_error R [nat n0, nat n1] = None"
  shows "\<not> isl (np_random R f (PyInteger n0) (PyInteger n1) g)"
  using assms
  by (simp add: np_random_def as_size_def shape_error_def split: prod.splits)

lemma np_full_ok:
  assumes "0 \<le> n" "alloc_error R [nat n] = None"
  shows "\<not> isl (np_full R v (PyInteger n))"
  using assms by (simp add: np_full_def as_size_def shape_error_def)

lemma requested_layer:
  assumes "i + 1 < length ns" "list_all P (requested_shapes bn ns)"
  shows "P [nat (ns ! i), nat (ns ! (i + 1))]" "P [nat (ns ! (i + 1))]"
proof -
  from assms(1) have "i \<in> set [0..<length ns - 1]" by simp
  with assms(2) show "P [nat (ns ! i), nat (ns ! (i + 1))]" "P [nat (ns ! (i + 1))]"
    unfolding requested_shapes_def list_all_iff by fastforce+
qed

lemma requested_var:
  assumes "i < length ns - 2" "list_all P (requested_shapes True ns)"
  shows "P [nat (ns ! (i + i))]"
  using assms unfolding requested_shapes_def list_all_iff by fastforce

lemma init_layers_success:
  assumes "list_all (\<lambda>i. i + 1 < length ns) js"
    and "list_all (\<lambda>n. 0 \<le> n) ns"
    and "list_all (\<lambda>sh. alloc_error R sh = None) (requested_shapes bn ns)"
  shows "\<not> isl (init_layers R ws (map PyInteger ns) js Ws bs g)"
  using assms(1)
proof (induction js arbitrary: Ws bs g)
  case Nil
  show ?case by simp
next
  case (Cons i js)
  from Cons.prems have i: "i + 1 < length ns" and rest: "list_all (\<lambda>i. i + 1 < length ns) js"
    by simp_all
  from i assms(2) have nn: "0 \<le> ns ! i" "0 \<le> ns ! (i + 1)"
    by (simp_all add: list_all_length)
  from np_random_ok[OF nn requested_layer(1)[OF i assms(3)], of "rand1 R" g]
  obtain Ag where A: "np_random R (rand1 R) (PyInteger (ns ! i)) (PyInteger (ns ! (i + 1))) g = Inr Ag"
    by (cases "np_random R (rand1 R) (PyInteger (ns ! i)) (PyInteger (ns ! (i + 1))) g") simp_all
  from np_full_ok[OF nn(2) requested_layer(2)[OF i assms(3)], of 0]
  obtain z where z: "np_zeros R (PyInteger (ns ! (i + 1))) = Inr z"
    by (cases "np_zeros R (PyInteger (ns ! (i + 1)))") (simp_all add: np_zeros_def)
  show ?case
    using i A z Cons.IH[OF rest] by (simp add: list_get_def)
qed

lemma init_bn_params_success:
  assumes "list_all (\<lambda>i. i < length ns - 2 \<and> i + i < length ns) js"
    and "list_all (\<lambda>n. 0 \<le> n) ns"
    and "list_all (\<lambda>sh. alloc_error R sh = None) (requested_shapes True ns)"
  shows "\<not> isl (init_bn_params R (map PyInteger ns) js acc)"
  using assms(1)
proof (induction js arbitrary: acc)
  case Nil
  show ?case by simp
next
  case (Cons i js)
  from Cons.prems have i: "i < length ns - 2" "i + i < length ns"
    and rest: "list_all (\<lambda>i. i < length ns - 2 \<and> i + i < length ns) js"
    by simp_all
  from i(1) have i1: "i + 1 < length ns" by simp
  from i i1 assms(2) have nn: "0 \<le> ns ! (i + 1)" "0 \<le> ns ! (i + i)"
    by (simp_all add: list_all_length)
  from np_full_ok[OF nn(1) requested_layer(2)[OF i1 assms(3)], of 0]
  obtain rm where rm: "np_zeros R (PyInteger (ns ! (i + 1))) = Inr rm"
    by (cases "np_zeros R (PyInteger (ns ! (i + 1)))") (simp_all add: np_zeros_def)
  from np_full_ok[OF nn(2) requested_var[OF i(1) assms(3)], of 0]
  obtain rv where rv: "np_zeros R (PyInteger (ns ! (i + i))) = Inr rv"
    by (cases "np_zeros R (PyInteger (ns ! (i + i)))") (simp_all add: np_zeros_def)
  show ?case
    using i i1 rm rv Cons.IH[OF rest] by (simp add: list_get_def)
qed

lemma init_vectors_success:
  assumes "list_all (\<lambda>i. i + 1 < length ns) js"
    and "list_all (\<lambda>n. 0 \<le> n) ns"
    and "list_all (\<lambda>sh. alloc_error R sh = None) (requested_shapes bn ns)"
  shows "\<not> isl (init_vectors R name v (map PyInteger ns) js acc)"
  using assms(1)
proof (induction js arbitrary: acc)
  case Nil
  show ?case by simp
next
  case (Cons i js)
  from Cons.prems have i: "i + 1 < length ns" and rest: "list_all (\<lambda>i. i + 1 < length ns) js"
    by simp_all
  from i assms(2) have nn: "0 \<le> ns ! (i + 1)" by (simp add: list_all_length)
  from np_full_ok[OF nn requested_layer(2)[OF i assms(3)], of v]
  obtain a where a: "np_full R v (PyInteger (ns ! (i + 1))) = Inr a"
    by (cases "np_full R v (PyInteger (ns ! (i + 1)))") simp_all
  show ?case
    using i a Cons.IH[OF rest] by (simp add: list_get_def)
qed

lemma fc_init_success:
  assumes few: "bn \<longrightarrow> length ns \<le> 3"
    and nonneg: "list_all (\<lambda>d. 0 \<le> d) (input_dim # ns @ [num_classes])"
    and alloc: "list_all (\<lambda>sh. alloc_error R sh = None)
                  (requested_shapes bn (input_dim # ns @ [num_classes]))"
  shows "\<not> isl (FullyConnectedNet_init R (PyList (map PyInteger ns)) input_dim num_classes
                  dropout bn r ws seed g)"
proof -
  let ?ns = "input_dim # ns @ [num_classes]"
  let ?dims = "[PyInteger input_dim] @ map PyInteger ns @ [PyInteger num_classes]"
  have dims: "?dims = map PyInteger ?ns" by simp
  have len: "length ?dims = length ns + 2" by simp
  have idx: "list_all (\<lambda>i. i + 1 < length ?ns) [0..<length ?dims - 1]"
    by (simp add: list_all_iff)
  from init_layers_success[OF idx nonneg alloc, of ws "[]" "[]" g]
  obtain Wb g' where layers: "init_layers R ws ?dims [0..<length ?dims - 1] [] [] g = Inr (Wb, g')"
    unfolding dims
    by (cases "init_layers R ws (map PyInteger ?ns) [0..<length (map PyInteger ?ns) - 1] [] [] g")
       auto
  show ?thesis
  proof (cases bn)
    case False
    with layers show ?thesis
      by (simp add: FullyConnectedNet_init_def Let_def del: append.simps)
  next
    case True
    with few have H: "length ns \<le> 3" by simp
    have idx2: "list_all (\<lambda>i. i < length ?ns - 2 \<and> i + i < length ?ns) [0..<length ?dims - 2]"
      using H by (auto simp: list_all_iff)
    have idx3: "list_all (\<lambda>i. i + 1 < length ?ns) [0..<length ?dims - 2]"
      by (simp add: list_all_iff)
    from alloc True have alloc': "list_all (\<lambda>sh. alloc_error R sh = None) (requested_shapes True ?ns)"
      by simp
    from init_bn_params_success[OF idx2 nonneg alloc', of "[]"]
    obtain bnv where b: "init_bn_params R ?dims [0..<length ?dims - 2] [] = Inr bnv"
      unfolding dims
      by (cases "init_bn_params R (map PyInteger ?ns) [0..<length (map PyInteger ?ns) - 2] []") auto
    from init_vectors_success[OF idx3 nonneg alloc', of "''gamma''" 1 "[]"]
    obtain gv where gm: "init_vectors R ''gamma'' 1 ?dims [0..<length ?dims - 2] [] = Inr gv"
      unfolding dims
      by (cases "init_vectors R ''gamma'' 1 (map PyInteger ?ns) [0..<length (map PyInteger ?ns) - 2] []")
         auto
    from init_vectors_success[OF idx3 nonneg alloc', of "''beta''" 0 "[]"]
    obtain bv where bt: "init_vectors R ''beta'' 0 ?dims [0..<length ?dims - 2] [] = Inr bv"
      unfolding dims
      by (cases "init_vectors R ''beta'' 0 (map PyInteger ?ns) [0..<length (map PyInteger ?ns) - 2] []")
         auto
    from True layers b gm bt show ?thesis
      by (simp add: FullyConnectedNet_init_def Let_def del: append.simps)
  qed
qed

text \<open>
  C8, as stated: construction raises an error if and only if \<open>hidden_dims\<close> is not a
  proper sequence of positive integers. The list \<open>[0]\<close> is not one, and construction with
  it succeeds.
\<close>

theorem fc_init_accepts_zero_counterexample:
  "\<not> isl (FullyConnectedNet_init fixed_rng (PyList [PyInteger 0]) 2 2 0 False 0 1 None 0)
   \<and> \<not> proper_hidden_dims (PyList [PyInteger 0])"
proof -
  have "\<not> isl (FullyConnectedNet_init fixed_rng (PyList (map PyInteger [0])) 2 2 0 False 0 1 None 0)"
    by (rule fc_init_success) (simp_all add: fixed_rng_def list_all_iff)
  then show ?thesis by simp
qed

text \<open>
  C8, amended. Construction raises the configuration error
  \<open>ValueError('hidden_dim has to be a list')\<close> if and only if \<open>hidden_dims\<close> is a tuple, the
  sized value that is not a list (numpy's own errors being other errors); a value
  without a length raises TypeError. Construction with a list fails, with or without
  batch normalization, whenever \<open>input_dim\<close>, \<open>num_classes\<close> or a hidden size is negative,
  or a hidden size is a non-integer that the numpy in use refuses. It succeeds for a list
  of non-negative integers, zero included, when numpy creates every array requested and
  batch normalization is off or there are at most three hidden layers.
\<close>

theorem fc_init_raises:
  "((\<forall>sh. alloc_error R sh \<noteq> Some (ValueError ''hidden_dim has to be a list''))
      \<and> (\<forall>x. float_size R x \<noteq> Inl (ValueError ''hidden_dim has to be a list''))
     \<longrightarrow> (FullyConnectedNet_init R arg input_dim num_classes dropout bn r ws seed g
            = Inl (ValueError ''hidden_dim has to be a list'')) = (\<exists>hs. arg = PyTuple hs))
   \<and> FullyConnectedNet_init R (PyInt n) input_dim num_classes dropout bn r ws seed g = Inl TypeError
   \<and> FullyConnectedNet_init R PyNone input_dim num_classes dropout bn r ws seed g = Inl TypeError
   \<and> (list_ex (refused_size R) (PyInteger input_dim # hs' @ [PyInteger num_classes])
        \<longrightarrow> isl (FullyConnectedNet_init R (PyList hs') input_dim num_classes dropout bn r ws seed g))
   \<and> ((bn \<longrightarrow> length ns \<le> 3)
        \<and> list_all (\<lambda>d. 0 \<le> d) (input_dim # ns @ [num_classes])
        \<and> list_all (\<lambda>sh. alloc_error R sh = None)
             (requested_shapes bn (input_dim # ns @ [num_classes]))
        \<longrightarrow> \<not> isl (FullyConnectedNet_init R (PyList (map PyInteger ns)) input_dim num_classes
                      dropout bn r ws seed g))"
  using fc_init_config_error[of R arg input_dim num_classes dropout bn r ws seed g]
    fc_init_refused[of R input_dim hs' num_classes dropout bn r ws seed g]
    fc_init_success[of bn ns input_dim num_classes R dropout r ws seed g]
  by (simp add: FullyConnectedNet_init_def)

theorem fc_init_raises_witness:
  "(\<forall>sh. alloc_error fixed_rng sh \<noteq> Some (ValueError ''hidden_dim has to be a list''))
   \<and> (\<forall>x. float_size fixed_rng x \<noteq> Inl (ValueError ''hidden_dim has to be a list''))
   \<and> FullyConnectedNet_init fixed_rng (PyTuple [PyInteger 3]) 2 2 0 True 0 1 None 0
       = Inl (ValueError ''hidden_dim has to be a list'')
   \<and> list_ex (refused_size fixed_rng) (PyInteger 2 # [PyInteger (- 1), PyFloat (5 / 2)] @ [PyInteger 2])
   \<and> isl (FullyConnectedNet_init fixed_rng (PyList [PyInteger (- 1), PyFloat (5 / 2)]) 2 2 0 True 0 1 None 0)
   \<and> length [0 :: int] \<le> 3
   \<and> list_all (\<lambda>d. 0 \<le> d) (2 # [0 :: int] @ [2])
   \<and> list_all (\<lambda>sh. alloc_error fixed_rng sh = None) (requested_shapes True (2 # [0] @ [2]))
   \<and> \<not> isl (FullyConnectedNet_init fixed_rng (PyList (map PyInteger [0])) 2 2 0 True 0 1 None 0)"
proof -
  have h1: "\<forall>sh. alloc_error fixed_rng sh \<noteq> Some (ValueError ''hidden_dim has to be a list'')"
    and h2: "\<forall>x. float_size fixed_rng x \<noteq> Inl (ValueError ''hidden_dim has to be a list'')"
    by (simp_all add: fixed_rng_def)
  have h3: "list_ex (refused_size fixed_rng)
              (PyInteger 2 # [PyInteger (- 1), PyFloat (5 / 2)] @ [PyInteger 2])"
    by (simp add: refused_size_def as_size_def)
  have h4: "length [0 :: int] \<le> 3" and h5: "list_all (\<lambda>d. 0 \<le> d) (2 # [0 :: int] @ [2])"
    by simp_all
  have h6: "list_all (\<lambda>sh. alloc_error fixed_rng sh = None) (requested_shapes True (2 # [0] @ [2]))"
    by (simp add: fixed_rng_def list_all_iff)
  note T = fc_init_raises[of fixed_rng "PyTuple [PyInteger 3]" 2 2 0 True 0 1 None 0 0
      "[PyInteger (- 1), PyFloat (5 / 2)]" "[0]"]
  from T h1 h2 have c1: "FullyConnectedNet_init fixed_rng (PyTuple [PyInteger 3]) 2 2 0 True 0 1 None 0
       = Inl (ValueError ''hidden_dim has to be a list'')"
    by blast
  from T h3 have c2: "isl (FullyConnectedNet_init fixed_rng
       (PyList [PyInteger (- 1), PyFloat (5 / 2)]) 2 2 0 True 0 1 None 0)"
    by blast
  from T h4 h5 h6 have c3: "\<not> isl (FullyConnectedNet_init fixed_rng (PyList (map PyInteger [0]))
       2 2 0 True 0 1 None 0)"
    by blast
  show ?thesis
    using h1 h2 c1 h3 c2 h4 h5 h6 c3 by blast
qed

subsection \<open>The initial weights and biases\<close>

lemma draw_list_all:
  assumes "\<And>s. P (fst (f s))"
  shows "list_all P (fst (draw_list f n g))"
proof (induction n arbitrary: g)
  case 0
  show ?case by simp
next
  case (Suc n)
  show ?case using assms[of g] Suc[of "snd (f g)"]
    by (cases "f g"; cases "draw_list f n (snd (f g))") simp
qed

lemma draw_rows_all:
  assumes "\<And>s. P (fst (f s))"
  shows "list_all (list_all P) (fst (draw_rows f n k g))"
proof (induction n arbitrary: g)
  case 0
  show ?case by simp
next
  case (Suc n)
  show ?case using draw_list_all[of P f k g, OF assms] Suc[of "snd (draw_list f k g)"]
    by (cases "draw_list f k g"; cases "draw_rows f n k (snd (draw_list f k g))") simp
qed

lemma update_all: "list_all Q d \<Longrightarrow> Q (k, v) \<Longrightarrow> list_all Q (AList.update k v d)"
  by (induction d) auto

lemma dict_update_all: "list_all Q d \<Longrightarrow> list_all Q other \<Longrightarrow> list_all Q (dict_update d other)"
  unfolding dict_update_def
  by (induction other arbitrary: d) (simp_all add: update_all)

lemma scaled_draw_ok:
  assumes "0 \<le> ws" "list_all (list_all (\<lambda>v. 0 \<le> v \<and> v < 1)) rs"
  shows "entry_ok ws (k, Mat (scale ws \<lparr>ncols = n, rows = rs\<rparr>))"
proof -
  have "0 \<le> ws * v \<and> ws * v \<le> ws" if "0 \<le> v" "v < 1" for v :: real
    using that assms(1) by (simp add: mult_left_le)
  with assms(2) have "list_all (list_all (\<lambda>v. 0 \<le> v \<and> v \<le> ws)) (map (map (\<lambda>v. ws * v)) rs)"
    by (auto simp: list_all_iff)
  then show ?thesis
    by (simp add: entry_ok_def weight_entry_within_def bias_entry_zero_def scale_def)
qed

lemma zeros_ok: "entry_ok ws (k, Vec (replicate n 0))"
  by (simp add: entry_ok_def weight_entry_within_def bias_entry_zero_def list_all_iff)

lemma np_random_Inr:
  assumes "np_random R f d0 d1 g = Inr Ag"
  shows "\<exists>n0 n1. fst Ag = \<lparr>ncols = n1, rows = fst (draw_rows f n0 n1 g)\<rparr>"
proof -
  from assms obtain n0 n1 where
    "Ag = (\<lparr>ncols = nat n1, rows = fst (draw_rows f (nat n0) (nat n1) g)\<rparr>,
           snd (draw_rows f (nat n0) (nat n1) g))"
    by (auto simp: np_random_def case_prod_beta split: sum.splits option.splits)
  then have "fst Ag = \<lparr>ncols = nat n1, rows = fst (draw_rows f (nat n0) (nat n1) g)\<rparr>"
    by simp
  then show ?thesis by blast
qed

lemma np_full_Inr:
  assumes "np_full R v d = Inr a"
  shows "\<exists>n. a = replicate n v"
  using assms by (auto simp: np_full_def split: sum.splits option.splits)

lemma init_layers_ok:
  assumes "init_layers R ws dims js Ws bs g = Inr res"
    and "\<And>s. 0 \<le> fst (rand1 R s) \<and> fst (rand1 R s) < 1"
    and "0 \<le> ws"
    and "list_all (entry_ok ws) Ws" "list_all (entry_ok ws) bs"
  shows "list_all (entry_ok ws) (fst (fst res)) \<and> list_all (entry_ok ws) (snd (fst res))"
  using assms(1,4,5)
proof (induction js arbitrary: Ws bs g)
  case Nil
  then show ?case by auto
next
  case (Cons i js)
  from Cons.prems(1) obtain d0 d1 Ag z where
    A: "np_random R (rand1 R) d0 d1 g = Inr Ag" and z: "np_zeros R d1 = Inr z"
    and rec: "init_layers R ws dims js
       (dict_set Ws (''W'' @ str_nat (i + 1)) (Mat (scale ws (fst Ag))))
       (dict_set bs (''b'' @ str_nat (i + 1)) (Vec z)) (snd Ag) = Inr res"
    by (auto split: sum.splits)
  from np_random_Inr[OF A] obtain n0 n1 where
    Ag: "fst Ag = \<lparr>ncols = n1, rows = fst (draw_rows (rand1 R) n0 n1 g)\<rparr>" by blast
  from np_full_Inr[OF z[unfolded np_zeros_def]] obtain n where zz: "z = replicate n 0" by blast
  have w: "list_all (entry_ok ws)
       (dict_set Ws (''W'' @ str_nat (i + 1)) (Mat (scale ws (fst Ag))))"
    unfolding dict_set_def Ag
    by (rule update_all[OF Cons.prems(2)])
       (rule scaled_draw_ok[OF assms(3) draw_rows_all[of "\<lambda>v. 0 \<le> v \<and> v < 1", OF assms(2)]])
  have b: "list_all (entry_ok ws) (dict_set bs (''b'' @ str_nat (i + 1)) (Vec z))"
    unfolding dict_set_def zz by (rule update_all[OF Cons.prems(3) zeros_ok])
  show ?case by (rule Cons.IH[OF rec w b])
qed

lemma init_vectors_ok:
  assumes "init_vectors R name v dims js acc = Inr res"
    and "list_all (entry_ok ws) acc"
    and "v = 0 \<or> take 1 name \<noteq> ''b''" "name \<noteq> []"
  shows "list_all (entry_ok ws) res"
  using assms(1,2)
proof (induction js arbitrary: acc)
  case Nil
  then show ?case by simp
next
  case (Cons i js)
  from Cons.prems(1) obtain d1 a where a: "np_full R v d1 = Inr a"
    and rec: "init_vectors R name v dims js (dict_set acc (name @ str_nat (i + 1)) (Vec a)) = Inr res"
    by (auto split: sum.splits)
  from np_full_Inr[OF a] obtain n where aa: "a = replicate n v" by blast
  have "take 1 (name @ str_nat (i + 1)) = take 1 name"
    using assms(4) by (cases name) simp_all
  then have "entry_ok ws (name @ str_nat (i + 1), Vec (replicate n v))"
    using assms(3) by (auto simp: entry_ok_def weight_entry_within_def bias_entry_zero_def list_all_iff)
  then have "list_all (entry_ok ws) (dict_set acc (name @ str_nat (i + 1)) (Vec a))"
    unfolding dict_set_def aa by (rule update_all[OF Cons.prems(2)])
  with rec show ?case by (rule Cons.IH)
qed

lemma fc_init_entries_ok:
  assumes init: "FullyConnectedNet_init R arg input_dim num_classes dropout bn r ws seed g = Inr (m, g')"
    and range: "\<forall>s. 0 \<le> fst (rand1 R s) \<and> fst (rand1 R s) < 1"
    and ws: "0 \<le> ws"
  shows "list_all (entry_ok ws) (fc_params m)"
proof -
  from init obtain hs where arg: "arg = PyList hs"
    by (cases arg) (simp_all add: FullyConnectedNet_init_def)
  let ?dims = "[PyInteger input_dim] @ hs @ [PyInteger num_classes]"
  from init arg obtain Wb g1 where
    layers: "init_layers R ws ?dims [0..<length ?dims - 1] [] [] g = Inr (Wb, g1)"
    by (cases "init_layers R ws ?dims [0..<length ?dims - 1] [] [] g")
       (auto simp: FullyConnectedNet_init_def Let_def)
  have r: "\<And>s. 0 \<le> fst (rand1 R s) \<and> fst (rand1 R s) < 1" using range by simp
  from init_layers_ok[OF layers r ws] have Wb: "list_all (entry_ok ws) (fst Wb)" "list_all (entry_ok ws) (snd Wb)"
    by simp_all
  let ?params = "dict_update (dict_update [] (fst Wb)) (snd Wb)"
  have params: "list_all (entry_ok ws) ?params"
    by (intro dict_update_all Wb) simp
  show ?thesis
  proof (cases bn)
    case False
    with init arg layers have "fc_params m = ?params"
      by (auto simp: FullyConnectedNet_init_def Let_def)
    with params show ?thesis by simp
  next
    case True
    with init arg layers obtain gammas betas where
      v: "init_vectors R ''gamma'' 1 ?dims [0..<length ?dims - 2] [] = Inr gammas"
         "init_vectors R ''beta'' 0 ?dims [0..<length ?dims - 2] [] = Inr betas"
      and m: "fc_params m = dict_update (dict_update ?params betas) gammas"
      by (auto simp: FullyConnectedNet_init_def Let_def bind_err_def split: sum.splits)
    have "list_all (entry_ok ws) gammas" "list_all (entry_ok ws) betas"
      using init_vectors_ok[OF v(1), of ws] init_vectors_ok[OF v(2), of ws] by simp_all
    with params m show ?thesis by (simp add: dict_update_all)
  qed
qed

text \<open>
  C6. \<open>FullyConnectedNet\<close> draws its weights with \<open>np.random.rand\<close>: when the uniform
  sampler returns values of \<open>[0, 1)\<close> and \<open>weight_scale\<close> is not negative, every entry of
  every weight matrix of a constructed network lies between \<open>0\<close> and \<open>weight_scale\<close>, so
  the weights are not drawn from a zero-mean distribution; the biases are zero.
\<close>

theorem fc_init_weights_uniform:
  assumes "FullyConnectedNet_init R arg input_dim num_classes dropout bn r ws seed g = Inr (m, g')"
    and "\<forall>s. 0 \<le> fst (rand1 R s) \<and> fst (rand1 R s) < 1"
    and "0 \<le> ws"
  shows "weights_within 0 ws (fc_params m) \<and> biases_zero (fc_params m)"
  using fc_init_entries_ok[OF assms]
  by (simp add: weights_within_def biases_zero_def list_all_iff entry_ok_def)

theorem fc_init_weights_uniform_witness:
  "FullyConnectedNet_init fixed_rng (PyList [PyInteger 1]) 1 1 0 True 0 2 None 0 =
     Inr (\<lparr>fc_use_batchnorm = True, fc_use_dropout = False, fc_reg = 0, fc_num_layers = 2,
            fc_params = [(''W1'', Mat \<lparr>ncols = 1, rows = [[1]]\<rparr>), (''W2'', Mat \<lparr>ncols = 1, rows = [[1]]\<rparr>),
                         (''b1'', Vec [0]), (''b2'', Vec [0]), (''beta1'', Vec [0]), (''gamma1'', Vec [1])],
            fc_L = 2, fc_N = 1, fc_C = 1,
            fc_dropout_param = [],
            fc_bn_params = [(''bn_param1'', [(''mode'', PyStr ''train''), (''running_mean'', PyArr [0]),
                              (''running_var'', PyArr [0])])]\<rparr>, 2)
   \<and> (\<forall>s. 0 \<le> fst (rand1 fixed_rng s) \<and> fst (rand1 fixed_rng s) < 1)
   \<and> (0::real) \<le> 2
   \<and> weights_within 0 2
        [(''W1'', Mat \<lparr>ncols = 1, rows = [[1]]\<rparr>), (''W2'', Mat \<lparr>ncols = 1, rows = [[1]]\<rparr>),
         (''b1'', Vec [0]), (''b2'', Vec [0]), (''beta1'', Vec [0]), (''gamma1'', Vec [1])]
   \<and> biases_zero
        [(''W1'', Mat \<lparr>ncols = 1, rows = [[1]]\<rparr>), (''W2'', Mat \<lparr>ncols = 1, rows = [[1]]\<rparr>),
         (''b1'', Vec [0]), (''b2'', Vec [0]), (''beta1'', Vec [0]), (''gamma1'', Vec [1])]"
proof -
  have range: "\<forall>s. 0 \<le> fst (rand1 fixed_rng s) \<and> fst (rand1 fixed_rng s) < 1"
    by (simp add: fixed_rng_def)
  have ws: "(0::real) \<le> 2" by simp
  from fc_init_weights_uniform[OF init_bn_example range ws] init_bn_example range
  show ?thesis by simp
qed

subsection \<open>Batch normalization and dropout\<close>

lemma toggles_no_effect:
  "map_sum id fst (FullyConnectedNet_loss Ls (m\<lparr>fc_use_batchnorm := b, fc_use_dropout := d\<rparr>) X y)
   = map_sum id fst (FullyConnectedNet_loss Ls m X y)"
  by (cases y; cases b; cases "fc_use_batchnorm m")
     (simp_all add: FullyConnectedNet_loss_def Let_def bind_err_def split: sum.splits prod.splits)

lemma init_example:
  "FullyConnectedNet_init fixed_rng (PyList [PyInteger 1]) 1 1 (1 / 2) True 0 2 None 0 =
     Inr (\<lparr>fc_use_batchnorm = True, fc_use_dropout = True, fc_reg = 0, fc_num_layers = 2,
            fc_params = [(''W1'', Mat \<lparr>ncols = 1, rows = [[1]]\<rparr>), (''W2'', Mat \<lparr>ncols = 1, rows = [[1]]\<rparr>),
                         (''b1'', Vec [0]), (''b2'', Vec [0]), (''beta1'', Vec [0]), (''gamma1'', Vec [1])],
            fc_L = 2, fc_N = 1, fc_C = 1,
            fc_dropout_param = [(''mode'', PyStr ''train''), (''p'', PyNum (1 / 2))],
            fc_bn_params = [(''bn_param1'', [(''mode'', PyStr ''train''), (''running_mean'', PyArr [0]),
                              (''running_var'', PyArr [0])])]\<rparr>, 2)"
  by (simp add: eval_defs del: One_nat_def)

lemma infer_example:
  "map_sum id fst (FullyConnectedNet_loss ref_layers
     \<lparr>fc_use_batchnorm = True, fc_use_dropout = True, fc_reg = 0, fc_num_layers = 2,
            fc_params = [(''W1'', Mat \<lparr>ncols = 1, rows = [[1]]\<rparr>), (''W2'', Mat \<lparr>ncols = 1, rows = [[1]]\<rparr>),
                         (''b1'', Vec [0]), (''b2'', Vec [0]), (''beta1'', Vec [0]), (''gamma1'', Vec [1])],
            fc_L = 2, fc_N = 1, fc_C = 1,
            fc_dropout_param = [(''mode'', PyStr ''train''), (''p'', PyNum (1 / 2))],
            fc_bn_params = [(''bn_param1'', [(''mode'', PyStr ''train''), (''running_mean'', PyArr [0]),
                              (''running_var'', PyArr [0])])]\<rparr>
     \<lparr>ncols = 1, rows = [[1], [3]]\<rparr> None)
   = Inr (Scores \<lparr>ncols = 1, rows = [[1], [3]]\<rparr>)"
  unfolding FullyConnectedNet_loss_def
  by (simp add: Let_def upt_small forward_example get_scores_example dict_set_def str_nat_small
        del: One_nat_def forward_loop.simps cong: bind_err_weak_cong)

text \<open>
  C5. A network constructed with \<open>use_batchnorm=True\<close> and \<open>dropout=0.5\<close> (one hidden
  unit, weights \<open>1\<close>, biases \<open>0\<close>) maps the inputs \<open>1\<close> and \<open>3\<close> to the scores \<open>1\<close> and
  \<open>3\<close>, those of affine, ReLU, affine alone, and to the same scores with both toggles
  switched off: the forward pass runs neither batch normalization nor dropout.
\<close>

theorem toggles_do_not_change_forward:
  "\<exists>m g. FullyConnectedNet_init fixed_rng (PyList [PyInteger 1]) 1 1 (1 / 2) True 0 2 None 0 = Inr (m, g)
     \<and> fc_use_batchnorm m \<and> fc_use_dropout m
     \<and> map_sum id fst (FullyConnectedNet_loss ref_layers m \<lparr>ncols = 1, rows = [[1], [3]]\<rparr> None)
         = Inr (Scores \<lparr>ncols = 1, rows = [[1], [3]]\<rparr>)
     \<and> map_sum id fst (FullyConnectedNet_loss ref_layers
           (m\<lparr>fc_use_batchnorm := False, fc_use_dropout := False\<rparr>)
           \<lparr>ncols = 1, rows = [[1], [3]]\<rparr> None)
         = Inr (Scores \<lparr>ncols = 1, rows = [[1], [3]]\<rparr>)"
proof -
  define m where "m =
     \<lparr>fc_use_batchnorm = True, fc_use_dropout = True, fc_reg = 0, fc_num_layers = 2,
            fc_params = [(''W1'', Mat \<lparr>ncols = 1, rows = [[1]]\<rparr>), (''W2'', Mat \<lparr>ncols = 1, rows = [[1]]\<rparr>),
                         (''b1'', Vec [0]), (''b2'', Vec [0]), (''beta1'', Vec [0]), (''gamma1'', Vec [1])],
            fc_L = 2, fc_N = 1, fc_C = 1,
            fc_dropout_param = [(''mode'', PyStr ''train''), (''p'', PyNum (1 / 2))],
            fc_bn_params = [(''bn_param1'', [(''mode'', PyStr ''train''), (''running_mean'', PyArr [0]),
                              (''running_var'', PyArr [0])])]\<rparr>"
  have i: "FullyConnectedNet_init fixed_rng (PyList [PyInteger 1]) 1 1 (1 / 2) True 0 2 None 0 = Inr (m, 2)"
    unfolding m_def by (rule init_example)
  have t: "fc_use_batchnorm m" "fc_use_dropout m" by (simp_all add: m_def)
  have f: "map_sum id fst (FullyConnectedNet_loss ref_layers m \<lparr>ncols = 1, rows = [[1], [3]]\<rparr> None)
         = Inr (Scores \<lparr>ncols = 1, rows = [[1], [3]]\<rparr>)"
    unfolding m_def by (rule infer_example)
  have f': "map_sum id fst (FullyConnectedNet_loss ref_layers
           (m\<lparr>fc_use_batchnorm := False, fc_use_dropout := False\<rparr>)
           \<lparr>ncols = 1, rows = [[1], [3]]\<rparr> None)
         = Inr (Scores \<lparr>ncols = 1, rows = [[1], [3]]\<rparr>)"
    unfolding toggles_no_effect by (rule f)
  from i t f f' show ?thesis by blast
qed

text \<open>
  C4. A network constructed with \<open>use_batchnorm=True\<close> and one hidden layer holds the
  parameters \<open>W1, b1, W2, b2, gamma1, beta1\<close>; the gradient map that \<open>loss(X, y)\<close> returns
  has the keys \<open>W1, b1, W2, b2\<close> only.
\<close>

theorem batchnorm_gradient_keys_differ:
  "\<exists>m g total grads m'.
     FullyConnectedNet_init fixed_rng (PyList [PyInteger 1]) 1 1 0 True 0 2 None 0 = Inr (m, g)
     \<and> FullyConnectedNet_loss ref_layers m \<lparr>ncols = 1, rows = [[1], [3]]\<rparr> (Some [0, 0])
         = Inr (LossGrads total grads, m')
     \<and> keys (fc_params m) = {''W1'', ''b1'', ''W2'', ''b2'', ''gamma1'', ''beta1''}
     \<and> keys grads = {''W1'', ''b1'', ''W2'', ''b2''}
     \<and> keys grads \<noteq> keys (fc_params m)"
proof -
  define m where "m =
     \<lparr>fc_use_batchnorm = True, fc_use_dropout = False, fc_reg = 0, fc_num_layers = 2,
            fc_params = [(''W1'', Mat \<lparr>ncols = 1, rows = [[1]]\<rparr>), (''W2'', Mat \<lparr>ncols = 1, rows = [[1]]\<rparr>),
                         (''b1'', Vec [0]), (''b2'', Vec [0]), (''beta1'', Vec [0]), (''gamma1'', Vec [1])],
            fc_L = 2, fc_N = 1, fc_C = 1,
            fc_dropout_param = [],
            fc_bn_params = [(''bn_param1'', [(''mode'', PyStr ''train''), (''running_mean'', PyArr [0]),
                              (''running_var'', PyArr [0])])]\<rparr>"
  define grads where "grads =
     [(''W2'', Mat \<lparr>ncols = 1, rows = [[0]]\<rparr>), (''W1'', Mat \<lparr>ncols = 1, rows = [[0]]\<rparr>),
      (''b2'', Vec [0]), (''b1'', Vec [0])]"
  have i: "FullyConnectedNet_init fixed_rng (PyList [PyInteger 1]) 1 1 0 True 0 2 None 0 = Inr (m, 2)"
    unfolding m_def by (rule init_bn_example)
  have l: "\<exists>m'. FullyConnectedNet_loss ref_layers m \<lparr>ncols = 1, rows = [[1], [3]]\<rparr> (Some [0, 0])
         = Inr (LossGrads 0 grads, m')"
    unfolding m_def grads_def by (rule exI) (rule loss_bn_example)
  have kp: "keys (fc_params m) = {''W1'', ''b1'', ''W2'', ''b2'', ''gamma1'', ''beta1''}"
    by (auto simp: keys_def m_def)
  have kg: "keys grads = {''W1'', ''b1'', ''W2'', ''b2''}"
    by (auto simp: keys_def grads_def)
  have "''gamma1'' \<in> keys (fc_params m)" "''gamma1'' \<notin> keys grads"
    unfolding kp kg by simp_all
  then have ne: "keys grads \<noteq> keys (fc_params m)" by blast
  from i l kp kg ne show ?thesis by blast
qed

end
